theory Spec2Isabelle
  imports Complex_Main
begin

section \<open>Data model\<close>

text \<open>
  The server of \<^verbatim>\<open>index.js\<close> keeps its habits in MongoDB when a connection was made and in
  the array \<^verbatim>\<open>habits\<close> otherwise. The handlers for list, create and toggle are modelled in
  their in-memory branch (\<^verbatim>\<open>isConnected\<close> false), whose code is all in the source; the
  other branch hands the same work to the mongoose library. The toggle itself is the same
  text in both branches and is one function, \<open>toggle_habit\<close>, here. The handler for
  delete is modelled whole, with both branches and its \<^verbatim>\<open>catch\<close>. Clock readings (\<^verbatim>\<open>new Date()\<close>,
  \<^verbatim>\<open>getTodayString()\<close>, \<^verbatim>\<open>getDayOfWeek()\<close>) and \<^verbatim>\<open>Math.random()\<close> are arguments of the
  handlers; the body of a request is taken to be a JSON object.
\<close>

text \<open>
  A JavaScript string is a sequence of UTF-16 code units; \<open>js\<close> turns an ASCII literal
  into one.
\<close>

type_synonym jsstring = "nat list"

definition js :: "string \<Rightarrow> jsstring" where
  "js s = map of_char s"

text \<open>
  The habit object of \<^verbatim>\<open>POST /api/habits\<close>: \<^verbatim>\<open>{title, days, history, createdAt}\<close> and, in the
  in-memory store, \<^verbatim>\<open>_id\<close>. \<open>createdAt\<close> is the time value of the \<^verbatim>\<open>Date\<close> (milliseconds since the
  epoch), \<open>days\<close> holds values of \<^verbatim>\<open>getDay()\<close>, \<open>history\<close> values of \<^verbatim>\<open>getTodayString()\<close>.
\<close>

record habit =
  title :: jsstring
  days :: "nat list"
  history :: "jsstring list"
  createdAt :: int
  habit_id :: nat

text \<open>
  The in-memory storage: \<^verbatim>\<open>let habits = []; let habitId = 1;\<close>. The counter is a JavaScript
  number, exact below \<open>2 ^ 53\<close>; it is modelled as a natural number.
\<close>

record store =
  habits :: "habit list"
  habitId :: nat

definition init_store :: store where
  "init_store = \<lparr>habits = [], habitId = 1\<rparr>"

text \<open>
  JSON documents, as \<^verbatim>\<open>express.json()\<close> and \<^verbatim>\<open>JSON.parse\<close> deliver them. A number carries
  the value of the parsed double; an object lists its members, each key once.
\<close>

datatype json =
    JNull
  | JBool bool
  | JNum rat
  | JStr jsstring
  | JArr "json list"
  | JObj "(jsstring \<times> json) list"

text \<open>
  What \<^verbatim>\<open>res.json(...)\<close> is given: the habit array, one habit, \<^verbatim>\<open>{error: ...}\<close>,
  \<^verbatim>\<open>{message: ...}\<close>, or (motivation endpoint) a JSON document, \<open>None\<close> standing for
  \<^verbatim>\<open>undefined\<close>.
\<close>

datatype body =
    HabitList "habit list"
  | HabitDoc habit
  | ErrorMsg string
  | Message string
  | JsonBody "json option"

record response =
  status :: nat
  body :: body

section \<open>Array operations\<close>

text \<open>\<^verbatim>\<open>Array.prototype.indexOf\<close>: the first index holding the value, \<open>-1\<close> when there is none.\<close>

fun indexOf :: "'a list \<Rightarrow> 'a \<Rightarrow> int" where
  "indexOf [] x = -1"
| "indexOf (y # ys) x =
     (if y = x then 0 else (let i = indexOf ys x in if i = -1 then -1 else i + 1))"

text \<open>\<^verbatim>\<open>Array.prototype.includes\<close>.\<close>

definition array_includes :: "'a list \<Rightarrow> 'a \<Rightarrow> bool" where
  "array_includes xs x = (x \<in> set xs)"

text \<open>\<^verbatim>\<open>xs.push(x)\<close>, returning the array.\<close>

definition push :: "'a list \<Rightarrow> 'a \<Rightarrow> 'a list" where
  "push xs x = xs @ [x]"

text \<open>\<^verbatim>\<open>xs.splice(i, 1)\<close> with \<open>0 \<le> i\<close>, returning the array: the element at \<open>i\<close> is taken out,
  and nothing happens when \<open>i\<close> is past the end.\<close>

definition splice1 :: "'a list \<Rightarrow> nat \<Rightarrow> 'a list" where
  "splice1 xs i = take i xs @ drop (Suc i) xs"

text \<open>\<^verbatim>\<open>Array.prototype.findIndex\<close>.\<close>

fun findIndex :: "('a \<Rightarrow> bool) \<Rightarrow> 'a list \<Rightarrow> int" where
  "findIndex P [] = -1"
| "findIndex P (y # ys) =
     (if P y then 0 else (let i = findIndex P ys in if i = -1 then -1 else i + 1))"

section \<open>Toggle\<close>

text \<open>
  The body shared by both branches of \<^verbatim>\<open>PATCH /api/habits/:id/toggle\<close> (the two copies are
  the same text), on the habit object found:
  \<^verbatim>\<open>
  const todayIndex = habit.history.indexOf(today);
  if (todayIndex === -1) {
    habit.history.push(today);
    if (!habit.days.includes(dayOfWeek)) habit.days.push(dayOfWeek);
  } else {
    habit.history.splice(todayIndex, 1);
    const dayIndex = habit.days.indexOf(dayOfWeek);
    if (dayIndex !== -1) habit.days.splice(dayIndex, 1);
  }
  \<close>
\<close>

definition toggle_habit :: "jsstring \<Rightarrow> nat \<Rightarrow> habit \<Rightarrow> habit" where
  "toggle_habit today dayOfWeek habit =
     (let todayIndex = indexOf (history habit) today in
      if todayIndex = -1 then
        habit\<lparr>history := push (history habit) today,
              days := (if \<not> array_includes (days habit) dayOfWeek
                       then push (days habit) dayOfWeek else days habit)\<rparr>
      else
        (let dayIndex = indexOf (days habit) dayOfWeek in
         habit\<lparr>history := splice1 (history habit) (nat todayIndex),
               days := (if dayIndex \<noteq> -1
                        then splice1 (days habit) (nat dayIndex) else days habit)\<rparr>))"

text \<open>
  The route parameter \<^verbatim>\<open>id\<close> is a string and \<^verbatim>\<open>h._id\<close> a number, so \<^verbatim>\<open>h._id == id\<close> compares
  \<^verbatim>\<open>h._id\<close> with the number the string converts to. The parameter is represented by that
  conversion: \<open>Some n\<close> when it denotes the natural number \<open>n\<close>, \<open>None\<close> when it denotes no
  natural number (and so equals no \<^verbatim>\<open>_id\<close>).
\<close>

type_synonym param = "nat option"

definition loose_eq :: "nat \<Rightarrow> param \<Rightarrow> bool" where
  "loose_eq n p = (p = Some n)"

text \<open>The objects of an array are shared with whoever found them: a mutation of the object
  that \<^verbatim>\<open>find\<close> returned is a mutation of the first matching element.\<close>

fun mutate_found :: "('a \<Rightarrow> bool) \<Rightarrow> ('a \<Rightarrow> 'a) \<Rightarrow> 'a list \<Rightarrow> 'a list" where
  "mutate_found P f [] = []"
| "mutate_found P f (y # ys) = (if P y then f y # ys else y # mutate_found P f ys)"

text \<open>
  \<^verbatim>\<open>PATCH /api/habits/:id/toggle\<close>, in-memory branch; \<open>today\<close> and \<open>dayOfWeek\<close> are the readings
  of \<^verbatim>\<open>getTodayString()\<close> and \<^verbatim>\<open>getDayOfWeek()\<close>.
\<close>

definition patch_toggle :: "jsstring \<Rightarrow> nat \<Rightarrow> param \<Rightarrow> store \<Rightarrow> response \<times> store" where
  "patch_toggle today dayOfWeek p st =
     (case List.find (\<lambda>h. loose_eq (habit_id h) p) (habits st) of
        None \<Rightarrow> (\<lparr>status = 404, body = ErrorMsg ''Habit not found''\<rparr>, st)
      | Some habit \<Rightarrow>
          (\<lparr>status = 200, body = HabitDoc (toggle_habit today dayOfWeek habit)\<rparr>,
           st\<lparr>habits := mutate_found (\<lambda>h. loose_eq (habit_id h) p)
                            (toggle_habit today dayOfWeek) (habits st)\<rparr>))"

section \<open>List, create, delete\<close>

text \<open>\<^verbatim>\<open>GET /api/habits\<close>, in-memory branch: \<^verbatim>\<open>res.json(habits)\<close>.\<close>

definition get_habits :: "store \<Rightarrow> response \<times> store" where
  "get_habits st = (\<lparr>status = 200, body = HabitList (habits st)\<rparr>, st)"

text \<open>
  \<^verbatim>\<open>String.prototype.trim\<close> strips white space and line terminators from both ends: TAB, LF,
  VT, FF, CR, SP, NBSP, U+1680, U+2000 to U+200A, U+2028, U+2029, U+202F, U+205F, U+3000
  and U+FEFF.
\<close>

definition is_white_space :: "nat \<Rightarrow> bool" where
  "is_white_space c =
     (c \<in> set [9, 10, 11, 12, 13, 32, 160, 5760, 8232, 8233, 8239, 8287, 12288, 65279]
      \<or> (8192 \<le> c \<and> c \<le> 8202))"

definition trim :: "jsstring \<Rightarrow> jsstring" where
  "trim s = rev (dropWhile is_white_space (rev (dropWhile is_white_space s)))"

text \<open>
  \<^verbatim>\<open>const { title } = req.body\<close>: the member \<^verbatim>\<open>title\<close> of the body, \<open>None\<close> (\<^verbatim>\<open>undefined\<close>) when
  the body has none. \<open>falsy\<close> is \<^verbatim>\<open>!title\<close>.
\<close>

definition falsy :: "json option \<Rightarrow> bool" where
  "falsy v =
     (case v of
        None \<Rightarrow> True
      | Some JNull \<Rightarrow> True
      | Some (JBool b) \<Rightarrow> \<not> b
      | Some (JNum n) \<Rightarrow> n = 0
      | Some (JStr s) \<Rightarrow> s = []
      | Some (JArr _) \<Rightarrow> False
      | Some (JObj _) \<Rightarrow> False)"

datatype js_error = TypeError

text \<open>\<^verbatim>\<open>title.trim()\<close>: only a string has the method; on any other title the call raises a
  TypeError.\<close>

definition call_trim :: "json option \<Rightarrow> js_error + jsstring" where
  "call_trim v = (case v of Some (JStr s) \<Rightarrow> Inr (trim s) | _ \<Rightarrow> Inl TypeError)"

text \<open>
  \<^verbatim>\<open>POST /api/habits\<close>, in-memory branch. \<open>post_habits_body\<close> is the body of the \<^verbatim>\<open>try\<close>,
  \<open>now\<close> the reading of \<^verbatim>\<open>new Date()\<close>; \<open>post_habits\<close> adds the \<^verbatim>\<open>catch\<close>. An exception
  leaves the store as it was: nothing is written before \<^verbatim>\<open>habits.push\<close>.
\<close>

definition post_habits_body :: "int \<Rightarrow> json option \<Rightarrow> store \<Rightarrow> js_error + response \<times> store"
  where
  "post_habits_body now ttl st =
     (if falsy ttl then Inr (\<lparr>status = 400, body = ErrorMsg ''Title is required''\<rparr>, st)
      else
        (case call_trim ttl of
           Inl e \<Rightarrow> Inl e
         | Inr t \<Rightarrow>
             if t = [] then Inr (\<lparr>status = 400, body = ErrorMsg ''Title is required''\<rparr>, st)
             else
               (let newHabit = \<lparr>title = t, days = [], history = [], createdAt = now,
                                 habit_id = habitId st\<rparr>
                in Inr (\<lparr>status = 201, body = HabitDoc newHabit\<rparr>,
                        \<lparr>habits = push (habits st) newHabit, habitId = habitId st + 1\<rparr>))))"

definition post_habits :: "int \<Rightarrow> json option \<Rightarrow> store \<Rightarrow> response \<times> store" where
  "post_habits now ttl st =
     (case post_habits_body now ttl st of
        Inl e \<Rightarrow> (\<lparr>status = 500, body = ErrorMsg ''Failed to create habit''\<rparr>, st)
      | Inr r \<Rightarrow> r)"

text \<open>
  \<^verbatim>\<open>DELETE /api/habits/:id\<close>. \<open>delete_in_memory\<close> is the \<^verbatim>\<open>else\<close> branch of the handler, on
  the array:
  \<^verbatim>\<open>
  const habitIndex = habits.findIndex(h => h._id == id);
  if (habitIndex === -1) return res.status(404).json({ error: 'Habit not found' });
  habits.splice(habitIndex, 1);
  res.json({ message: 'Habit deleted successfully' });
  \<close>
\<close>

definition delete_in_memory :: "param \<Rightarrow> store \<Rightarrow> response \<times> store" where
  "delete_in_memory p st =
     (let habitIndex = findIndex (\<lambda>h. loose_eq (habit_id h) p) (habits st) in
      if habitIndex = -1 then (\<lparr>status = 404, body = ErrorMsg ''Habit not found''\<rparr>, st)
      else (\<lparr>status = 200, body = Message ''Habit deleted successfully''\<rparr>,
            st\<lparr>habits := splice1 (habits st) (nat habitIndex)\<rparr>))"

text \<open>
  The whole handler needs the other branch too, which awaits
  \<^verbatim>\<open>Habit.findByIdAndDelete(id)\<close>. The server is the flag \<^verbatim>\<open>isConnected\<close>, the in-memory
  storage and the collection of the \<^verbatim>\<open>Habit\<close> model: its documents, \<open>habit_id\<close> holding the
  value of the ObjectId \<^verbatim>\<open>_id\<close>. \<open>reachable\<close> says whether the driver reaches the database
  when the query is sent.
\<close>

record server =
  isConnected :: bool
  reachable :: bool
  memory :: store
  collection :: "habit list"

text \<open>
  The route parameter \<^verbatim>\<open>id\<close> of one request in the two readings the branches give it:
  \<open>as_number\<close> for \<^verbatim>\<open>h._id == id\<close> (see \<open>param\<close>), and \<open>as_object_id\<close>, the value of the ObjectId
  that mongoose casts the string to, \<open>None\<close> when mongoose cannot cast it. The parameter
  \<^verbatim>\<open>7\<close> reads \<open>Some 7\<close> as a number and \<open>None\<close> as an ObjectId.
\<close>

record route_id =
  as_number :: param
  as_object_id :: "nat option"

datatype db_error = CastError | DriverError

text \<open>
  \<^verbatim>\<open>Model.findByIdAndDelete(id)\<close> of mongoose, as its documentation has it: the id is cast to
  the type of \<^verbatim>\<open>_id\<close>, and the query is rejected with a CastError when it cannot be; the
  query is rejected as well when the database is not reached; otherwise it resolves with
  the document of that id, which is taken out of the collection, or with \<^verbatim>\<open>null\<close> (\<open>None\<close>)
  when there is none. The result is what the promise settles with, and the collection
  afterwards.
\<close>

definition findByIdAndDelete ::
  "nat option \<Rightarrow> bool \<Rightarrow> habit list \<Rightarrow> db_error + habit option \<times> habit list" where
  "findByIdAndDelete oid up docs =
     (case oid of
        None \<Rightarrow> Inl CastError
      | Some n \<Rightarrow>
          if \<not> up then Inl DriverError
          else
            (case List.find (\<lambda>d. habit_id d = n) docs of
               None \<Rightarrow> Inr (None, docs)
             | Some d \<Rightarrow> Inr (Some d, remove1 d docs)))"

text \<open>
  \<open>delete_habit_body\<close> is the body of the \<^verbatim>\<open>try\<close>, with both branches; a rejected query is
  an exception at the \<^verbatim>\<open>await\<close>. \<open>delete_habit\<close> adds the \<^verbatim>\<open>catch\<close>, which answers 500.
\<close>

definition delete_habit_body :: "route_id \<Rightarrow> server \<Rightarrow> db_error + response \<times> server" where
  "delete_habit_body rid sv =
     (if isConnected sv then
        (case findByIdAndDelete (as_object_id rid) (reachable sv) (collection sv) of
           Inl e \<Rightarrow> Inl e
         | Inr (deletedHabit, docs) \<Rightarrow>
             (case deletedHabit of
                None \<Rightarrow> Inr (\<lparr>status = 404, body = ErrorMsg ''Habit not found''\<rparr>, sv)
              | Some _ \<Rightarrow>
                  Inr (\<lparr>status = 200, body = Message ''Habit deleted successfully''\<rparr>,
                       sv\<lparr>collection := docs\<rparr>)))
      else
        (case delete_in_memory (as_number rid) (memory sv) of
           (res, st) \<Rightarrow> Inr (res, sv\<lparr>memory := st\<rparr>)))"

definition delete_habit :: "route_id \<Rightarrow> server \<Rightarrow> response \<times> server" where
  "delete_habit rid sv =
     (case delete_habit_body rid sv of
        Inl e \<Rightarrow> (\<lparr>status = 500, body = ErrorMsg ''Failed to delete habit''\<rparr>, sv)
      | Inr r \<Rightarrow> r)"

section \<open>Request sequences\<close>

text \<open>Requests to a server that keeps its habits in memory, and their handling there.\<close>

datatype request =
    GetHabits
  | PostHabits int "json option"
  | PatchToggle jsstring nat param
  | DeleteHabit param

fun handle :: "request \<Rightarrow> store \<Rightarrow> response \<times> store" where
  "handle GetHabits st = get_habits st"
| "handle (PostHabits now ttl) st = post_habits now ttl st"
| "handle (PatchToggle today dayOfWeek p) st = patch_toggle today dayOfWeek p st"
| "handle (DeleteHabit p) st = delete_in_memory p st"

text \<open>The store after a sequence of requests, handled one after the other.\<close>

fun run :: "request list \<Rightarrow> store \<Rightarrow> store" where
  "run [] st = st"
| "run (r # rs) st = run rs (snd (handle r st))"

section \<open>Motivation\<close>








section \<open>Properties the specification names\<close>

text \<open>A list of habits is newest-created-first when \<open>createdAt\<close> never increases along it.\<close>

definition newest_first :: "habit list \<Rightarrow> bool" where
  "newest_first hs = sorted_wrt (\<lambda>a b. createdAt b \<le> createdAt a) hs"

text \<open>
  The weekday, counted as \<^verbatim>\<open>getDay\<close> counts it (0 is Sunday), of a date string
  \<^verbatim>\<open>YYYY-MM-DD\<close> of the Gregorian calendar, the form \<^verbatim>\<open>getTodayString()\<close> produces.
\<close>

definition digits :: "jsstring \<Rightarrow> nat" where
  "digits s = foldl (\<lambda>n c. 10 * n + (c - 48)) 0 s"

definition weekday_of_date :: "jsstring \<Rightarrow> nat" where
  "weekday_of_date s =
     (let y = digits (take 4 s); m = digits (take 2 (drop 5 s)); d = digits (take 2 (drop 8 s));
          y' = (if m < 3 then y - 1 else y);
          t = (if 1 \<le> m \<and> m \<le> 12 then [0, 3, 2, 5, 0, 3, 5, 1, 4, 6, 2, 4] ! (m - 1) else 0)
      in (y' + y' div 4 - y' div 100 + y' div 400 + t + d) mod 7)"

text \<open>
  The invariant of the data model, for a function \<open>wd\<close> giving the weekday a date falls
  on: a weekday is in \<open>days\<close> if and only if some date of \<open>history\<close> falls on it.
\<close>

definition days_match_history :: "(jsstring \<Rightarrow> nat) \<Rightarrow> habit \<Rightarrow> bool" where
  "days_match_history wd h = (set (days h) = set (map wd (history h)))"

text \<open>The title is absent (or \<^verbatim>\<open>null\<close>), or a string that is empty after trimming.\<close>

definition absent_or_blank :: "json option \<Rightarrow> bool" where
  "absent_or_blank v =
     (case v of None \<Rightarrow> True | Some JNull \<Rightarrow> True | Some (JStr s) \<Rightarrow> trim s = [] | Some _ \<Rightarrow> False)"



text \<open>No habit of the store has a weekday twice in \<open>days\<close> or a date twice in \<open>history\<close>.\<close>

definition no_duplicates :: "store \<Rightarrow> bool" where
  "no_duplicates st = list_all (\<lambda>h. distinct (days h) \<and> distinct (history h)) (habits st)"

text \<open>The counter is at least 1, the ids of the store are pairwise different, and each is
  at least 1 and below the counter.\<close>

definition ids_ok :: "store \<Rightarrow> bool" where
  "ids_ok st =
     (1 \<le> habitId st \<and> distinct (map habit_id (habits st)) \<and>
      list_all (\<lambda>h. 1 \<le> habit_id h \<and> habit_id h < habitId st) (habits st))"

section \<open>Sample data\<close>

definition sample_habit :: habit where
  "sample_habit =
     \<lparr>title = js ''Read'', days = [], history = [], createdAt = 1000, habit_id = 1\<rparr>"

definition sample_store :: store where
  "sample_store = \<lparr>habits = [sample_habit], habitId = 2\<rparr>"

text \<open>A habit is created and marked done on Monday 2026-10-26.\<close>

definition week_ago_done :: "request list" where
  "week_ago_done =
     [PostHabits 1000 (Some (JStr (js ''Read''))), PatchToggle (js ''2026-10-26'') 1 (Some 1)]"

text \<open>... and again on Monday 2026-11-02.\<close>

definition two_mondays_done :: "request list" where
  "two_mondays_done = week_ago_done @ [PatchToggle (js ''2026-11-02'') 1 (Some 1)]"

text \<open>Two habits are created, the first is deleted, a third is created.\<close>

definition create_delete_create :: "request list" where
  "create_delete_create =
     [PostHabits 1000 (Some (JStr (js ''Read''))), PostHabits 2000 (Some (JStr (js ''Run''))),
      DeleteHabit (Some 1), PostHabits 3000 (Some (JStr (js ''Sleep'')))]"

text \<open>Two habits are created, one second apart.\<close>

definition two_created :: "request list" where
  "two_created =
     [PostHabits 1000 (Some (JStr (js ''Read''))), PostHabits 2000 (Some (JStr (js ''Run'')))]"

text \<open>A server connected to MongoDB, with one document in the collection; and a server
  that keeps two habits in memory.\<close>

definition connected_server :: server where
  "connected_server =
     \<lparr>isConnected = True, reachable = True, memory = init_store,
      collection = [\<lparr>title = js ''Read'', days = [], history = [], createdAt = 1000,
                     habit_id = 31415926535\<rparr>]\<rparr>"

definition in_memory_server :: server where
  "in_memory_server =
     \<lparr>isConnected = False, reachable = False, memory = run two_created init_store,
      collection = []\<rparr>"

section \<open>Facts about the array operations\<close>

lemma indexOf_ge: "- 1 \<le> indexOf xs x"
  by (induction xs) (auto simp: Let_def)

lemma indexOf_absent: "indexOf xs x = - 1 \<longleftrightarrow> x \<notin> set xs"
proof (induction xs)
  case Nil
  show ?case by simp
next
  case (Cons y ys)
  have "- 1 \<le> indexOf ys x" by (rule indexOf_ge)
  with Cons show ?case by (auto simp: Let_def)
qed

lemma splice1_indexOf: "x \<in> set xs \<Longrightarrow> splice1 xs (nat (indexOf xs x)) = remove1 x xs"
proof (induction xs)
  case Nil
  then show ?case by simp
next
  case (Cons y ys)
  show ?case
  proof (cases "y = x")
    case True
    then show ?thesis by (simp add: splice1_def)
  next
    case False
    with Cons.prems have mem: "x \<in> set ys" by simp
    then have "indexOf ys x \<noteq> - 1" by (simp add: indexOf_absent)
    moreover have "- 1 \<le> indexOf ys x" by (rule indexOf_ge)
    ultimately have nn: "0 \<le> indexOf ys x" by linarith
    then have "nat (indexOf ys x + 1) = Suc (nat (indexOf ys x))" by simp
    with False mem Cons.IH \<open>indexOf ys x \<noteq> - 1\<close> show ?thesis
      by (simp add: splice1_def Let_def)
  qed
qed

lemma includes_set: "array_includes xs x \<longleftrightarrow> x \<in> set xs"
  by (simp add: array_includes_def)

section \<open>Facts about the toggle\<close>

lemma history_toggle_absent:
  "today \<notin> set (history h) \<Longrightarrow> history (toggle_habit today d h) = history h @ [today]"
  by (simp add: toggle_habit_def Let_def indexOf_absent push_def)

lemma days_toggle_absent:
  "today \<notin> set (history h) \<Longrightarrow>
   days (toggle_habit today d h) = (if d \<in> set (days h) then days h else days h @ [d])"
  by (simp add: toggle_habit_def Let_def indexOf_absent push_def includes_set)

lemma history_toggle_present:
  "today \<in> set (history h) \<Longrightarrow> history (toggle_habit today d h) = remove1 today (history h)"
  by (simp add: toggle_habit_def Let_def indexOf_absent splice1_indexOf)

lemma days_toggle_present:
  "today \<in> set (history h) \<Longrightarrow> days (toggle_habit today d h) = remove1 d (days h)"
  by (cases "d \<in> set (days h)")
     (simp_all add: toggle_habit_def Let_def indexOf_absent splice1_indexOf remove1_idem)

lemma toggle_habit_fixed:
  "title (toggle_habit today d h) = title h"
  "createdAt (toggle_habit today d h) = createdAt h"
  "habit_id (toggle_habit today d h) = habit_id h"
  by (simp_all add: toggle_habit_def Let_def)

lemma mutate_found_update:
  "List.find P xs = Some h \<Longrightarrow>
   \<exists>k<length xs. xs ! k = h \<and> mutate_found P f xs = xs[k := f h]"
proof (induction xs)
  case Nil
  then show ?case by simp
next
  case (Cons y ys)
  show ?case
  proof (cases "P y")
    case True
    with Cons.prems have "y = h" by simp
    with True have "(y # ys) ! 0 = h \<and> mutate_found P f (y # ys) = (y # ys)[0 := f h]"
      by simp
    then show ?thesis by blast
  next
    case False
    with Cons.prems have "List.find P ys = Some h" by simp
    then obtain k where k: "k < length ys" "ys ! k = h" "mutate_found P f ys = ys[k := f h]"
      using Cons.IH by blast
    with False have "Suc k < length (y # ys) \<and> (y # ys) ! Suc k = h \<and>
        mutate_found P f (y # ys) = (y # ys)[Suc k := f h]"
      by simp
    then show ?thesis by blast
  qed
qed

section \<open>Invariants of the store\<close>

lemma toggle_distinct_history:
  "distinct (history h) \<Longrightarrow> distinct (history (toggle_habit today d h))"
  by (cases "today \<in> set (history h)")
     (simp_all add: history_toggle_absent history_toggle_present)

lemma toggle_distinct_days:
  "distinct (days h) \<Longrightarrow> distinct (days (toggle_habit today d h))"
  by (cases "today \<in> set (history h)")
     (simp_all add: days_toggle_absent days_toggle_present)

lemma list_all_mutate_found:
  "list_all Q xs \<Longrightarrow> (\<And>x. Q x \<Longrightarrow> Q (f x)) \<Longrightarrow> list_all Q (mutate_found P f xs)"
  by (induction xs) auto

lemma map_mutate_found:
  "(\<And>x. g (f x) = g x) \<Longrightarrow> map g (mutate_found P f xs) = map g xs"
  by (induction xs) auto

lemma list_all_splice1: "list_all Q xs \<Longrightarrow> list_all Q (splice1 xs i)"
  by (auto simp: splice1_def list_all_iff dest: in_set_takeD in_set_dropD)

lemma distinct_map_splice1: "distinct (map g xs) \<Longrightarrow> distinct (map g (splice1 xs i))"
proof (cases "i < length xs")
  case True
  assume d: "distinct (map g xs)"
  from True have "xs = take i xs @ xs ! i # drop (Suc i) xs" by (rule id_take_nth_drop)
  then have "map g xs = map g (take i xs) @ g (xs ! i) # map g (drop (Suc i) xs)"
    by (metis map_append list.simps(9))
  with d have "distinct (map g (take i xs) @ g (xs ! i) # map g (drop (Suc i) xs))" by simp
  then show ?thesis by (simp add: splice1_def)
next
  case False
  assume "distinct (map g xs)"
  with False show ?thesis by (simp add: splice1_def)
qed

lemma no_duplicates_handle: "no_duplicates st \<Longrightarrow> no_duplicates (snd (handle r st))"
proof (cases r)
  case GetHabits
  assume "no_duplicates st"
  with GetHabits show ?thesis by (simp add: get_habits_def)
next
  case (PostHabits now ttl)
  assume "no_duplicates st"
  with PostHabits show ?thesis
    by (simp add: post_habits_def post_habits_body_def no_duplicates_def push_def Let_def
        split: sum.splits)
next
  case (PatchToggle today d p)
  assume "no_duplicates st"
  with PatchToggle show ?thesis
    by (auto simp: patch_toggle_def no_duplicates_def toggle_distinct_history
        toggle_distinct_days split: option.splits intro!: list_all_mutate_found)
next
  case (DeleteHabit p)
  assume "no_duplicates st"
  with DeleteHabit show ?thesis
    by (simp add: delete_in_memory_def no_duplicates_def Let_def list_all_splice1)
qed

lemma no_duplicates_run: "no_duplicates st \<Longrightarrow> no_duplicates (run rs st)"
  by (induction rs arbitrary: st) (simp_all add: no_duplicates_handle)

lemma no_duplicates_init: "no_duplicates init_store"
  by (simp add: no_duplicates_def init_store_def)

lemma ids_ok_handle: "ids_ok st \<Longrightarrow> ids_ok (snd (handle r st))"
proof (cases r)
  case GetHabits
  assume "ids_ok st"
  with GetHabits show ?thesis by (simp add: get_habits_def)
next
  case (PostHabits now ttl)
  assume "ids_ok st"
  with PostHabits show ?thesis
    by (auto simp: post_habits_def post_habits_body_def ids_ok_def push_def Let_def
        list_all_iff split: sum.splits)
next
  case (PatchToggle today d p)
  assume a: "ids_ok st"
  have m: "map habit_id (mutate_found (\<lambda>h. loose_eq (habit_id h) p)
      (toggle_habit today d) (habits st)) = map habit_id (habits st)"
    by (rule map_mutate_found) (simp add: toggle_habit_fixed)
  from a have "list_all (\<lambda>h. 1 \<le> habit_id h \<and> habit_id h < habitId st)
     (mutate_found (\<lambda>h. loose_eq (habit_id h) p) (toggle_habit today d) (habits st))"
    by (auto simp: ids_ok_def toggle_habit_fixed intro!: list_all_mutate_found)
  with a m PatchToggle show ?thesis
    by (simp add: patch_toggle_def ids_ok_def split: option.splits)
next
  case (DeleteHabit p)
  assume "ids_ok st"
  with DeleteHabit show ?thesis
    by (simp add: delete_in_memory_def ids_ok_def Let_def list_all_splice1 distinct_map_splice1)
qed

lemma ids_ok_run: "ids_ok st \<Longrightarrow> ids_ok (run rs st)"
  by (induction rs arbitrary: st) (simp_all add: ids_ok_handle)

lemma ids_ok_init: "ids_ok init_store"
  by (simp add: ids_ok_def init_store_def)

lemma habitId_handle: "habitId st \<le> habitId (snd (handle r st))"
  by (cases r)
     (simp_all add: get_habits_def post_habits_def post_habits_body_def patch_toggle_def
        delete_in_memory_def Let_def split: sum.splits option.splits)

lemma run_snoc: "run (rs @ [r]) st = snd (handle r (run rs st))"
  by (induction rs arbitrary: st) simp_all

lemma distinct_map_filter_le1:
  "distinct (map g xs) \<Longrightarrow> length (filter (\<lambda>x. g x = v) xs) \<le> 1"
  by (induction xs) (auto simp: filter_empty_conv image_iff)

section \<open>Facts about two toggles\<close>

lemma remove1_snoc_absent: "x \<notin> set xs \<Longrightarrow> remove1 x (xs @ [x]) = xs"
  by (simp add: remove1_append)

lemma twice_history_absent:
  "today \<notin> set (history h) \<Longrightarrow>
   history (toggle_habit today d (toggle_habit today d h)) = history h"
  by (simp add: history_toggle_present history_toggle_absent remove1_snoc_absent)

lemma twice_days_absent:
  "today \<notin> set (history h) \<Longrightarrow>
   days (toggle_habit today d (toggle_habit today d h)) =
     (if d \<in> set (days h) then remove1 d (days h) else days h)"
  by (simp add: history_toggle_absent days_toggle_present days_toggle_absent remove1_snoc_absent)

lemma twice_history_present:
  "today \<in> set (history h) \<Longrightarrow> distinct (history h) \<Longrightarrow>
   history (toggle_habit today d (toggle_habit today d h)) = remove1 today (history h) @ [today]"
  by (simp add: history_toggle_present history_toggle_absent)

lemma twice_days_present:
  "today \<in> set (history h) \<Longrightarrow> distinct (history h) \<Longrightarrow> distinct (days h) \<Longrightarrow>
   days (toggle_habit today d (toggle_habit today d h)) = remove1 d (days h) @ [d]"
  by (simp add: history_toggle_present days_toggle_present days_toggle_absent)

lemma twice_identity:
  "today \<notin> set (history h) \<Longrightarrow> d \<notin> set (days h) \<Longrightarrow>
   toggle_habit today d (toggle_habit today d h) = h"
proof (rule habit.equality)
  assume a: "today \<notin> set (history h)" "d \<notin> set (days h)"
  show "title (toggle_habit today d (toggle_habit today d h)) = title h"
    by (simp add: toggle_habit_fixed)
  show "createdAt (toggle_habit today d (toggle_habit today d h)) = createdAt h"
    by (simp add: toggle_habit_fixed)
  show "habit_id (toggle_habit today d (toggle_habit today d h)) = habit_id h"
    by (simp add: toggle_habit_fixed)
  from a show "history (toggle_habit today d (toggle_habit today d h)) = history h"
    by (simp add: twice_history_absent)
  from a show "days (toggle_habit today d (toggle_habit today d h)) = days h"
    by (simp add: twice_days_absent)
  show "habit.more (toggle_habit today d (toggle_habit today d h)) = habit.more h"
    by (simp add: toggle_habit_def Let_def)
qed

lemma set_remove1_snoc: "x \<in> set xs \<Longrightarrow> set (remove1 x xs @ [x]) = set xs"
  by (induction xs) auto

lemma length_remove1_le: "length (remove1 x xs) \<le> length xs"
  by (simp add: length_remove1)

lemma length_history_toggle: "length (history (toggle_habit today d h)) \<le> Suc (length (history h))"
proof (cases "today \<in> set (history h)")
  case True
  with length_remove1_le [of today "history h"] show ?thesis
    by (simp add: history_toggle_present)
next
  case False
  then show ?thesis by (simp add: history_toggle_absent)
qed

lemma length_days_toggle: "length (days (toggle_habit today d h)) \<le> Suc (length (days h))"
proof (cases "today \<in> set (history h)")
  case True
  with length_remove1_le [of d "days h"] show ?thesis by (simp add: days_toggle_present)
next
  case False
  then show ?thesis by (simp add: days_toggle_absent)
qed

lemma length_days_toggle_present:
  "today \<in> set (history h) \<Longrightarrow> length (days (toggle_habit today d h)) \<le> length (days h)"
  by (simp add: days_toggle_present length_remove1_le)

lemma length_history_twice:
  "length (history (toggle_habit today d (toggle_habit today d h))) \<le> Suc (length (history h))"
proof (cases "today \<in> set (history h)")
  case True
  then have "length (history (toggle_habit today d h)) \<le> length (history h)"
    by (simp add: history_toggle_present length_remove1_le)
  with length_history_toggle [of today d "toggle_habit today d h"] show ?thesis by linarith
next
  case False
  then show ?thesis by (simp add: twice_history_absent)
qed

lemma length_days_twice:
  "length (days (toggle_habit today d (toggle_habit today d h))) \<le> Suc (length (days h))"
proof (cases "today \<in> set (history h)")
  case True
  then have "length (days (toggle_habit today d h)) \<le> length (days h)"
    by (rule length_days_toggle_present)
  with length_days_toggle [of today d "toggle_habit today d h"] show ?thesis by linarith
next
  case False
  with length_remove1_le [of d "days h"] show ?thesis by (simp add: twice_days_absent)
qed

section \<open>Facts about the weekday invariant\<close>

lemma image_minus_iff:
  "(f ` H - {f t} = f ` (H - {t})) \<longleftrightarrow> \<not> (\<exists>x\<in>H. x \<noteq> t \<and> f x = f t)"
proof
  assume e: "f ` H - {f t} = f ` (H - {t})"
  show "\<not> (\<exists>x\<in>H. x \<noteq> t \<and> f x = f t)"
  proof
    assume "\<exists>x\<in>H. x \<noteq> t \<and> f x = f t"
    then obtain x where x: "x \<in> H" "x \<noteq> t" "f x = f t" by blast
    then have "x \<in> H - {t}" by simp
    then have "f x \<in> f ` (H - {t})" by (rule imageI)
    with x(3) have "f t \<in> f ` (H - {t})" by simp
    with e have "f t \<in> f ` H - {f t}" by simp
    then show False by simp
  qed
next
  assume n: "\<not> (\<exists>x\<in>H. x \<noteq> t \<and> f x = f t)"
  show "f ` H - {f t} = f ` (H - {t})"
  proof (rule set_eqI, rule iffI)
    fix y
    assume "y \<in> f ` H - {f t}"
    then obtain x where x: "x \<in> H" "y = f x" "y \<noteq> f t" by auto
    then have "x \<in> H - {t}" by auto
    with x(2) show "y \<in> f ` (H - {t})" by simp
  next
    fix y
    assume "y \<in> f ` (H - {t})"
    then obtain x where x: "x \<in> H" "x \<noteq> t" "y = f x" by auto
    have "f x \<noteq> f t"
    proof
      assume "f x = f t"
      with x(1,2) have "\<exists>x\<in>H. x \<noteq> t \<and> f x = f t" by (intro bexI conjI)
      with n show False ..
    qed
    with x show "y \<in> f ` H - {f t}" by simp
  qed
qed

lemma inv_toggle_absent:
  assumes "days_match_history wd h" "today \<notin> set (history h)"
  shows "days_match_history wd (toggle_habit today (wd today) h)"
proof -
  have d: "set (days (toggle_habit today (wd today) h)) = insert (wd today) (set (days h))"
    using assms(2) by (simp add: days_toggle_absent insert_absorb)
  have m: "set (map wd (history (toggle_habit today (wd today) h))) =
      insert (wd today) (wd ` set (history h))"
    using assms(2) by (simp add: history_toggle_absent)
  from assms(1) have "set (days h) = wd ` set (history h)"
    by (simp add: days_match_history_def)
  with d m show ?thesis by (simp only: days_match_history_def)
qed

lemma inv_toggle_present:
  assumes "days_match_history wd h" "today \<in> set (history h)"
    "distinct (history h)" "distinct (days h)"
  shows "days_match_history wd (toggle_habit today (wd today) h) \<longleftrightarrow>
         \<not> (\<exists>x\<in>set (history h). x \<noteq> today \<and> wd x = wd today)"
proof -
  from assms have s: "set (days h) = wd ` set (history h)"
    by (simp add: days_match_history_def)
  have d: "set (days (toggle_habit today (wd today) h)) = wd ` set (history h) - {wd today}"
    using assms(2,4) s by (simp add: days_toggle_present)
  have m: "set (map wd (history (toggle_habit today (wd today) h))) =
      wd ` (set (history h) - {today})"
    using assms(2,3) by (simp add: history_toggle_present)
  have "days_match_history wd (toggle_habit today (wd today) h) \<longleftrightarrow>
      wd ` set (history h) - {wd today} = wd ` (set (history h) - {today})"
    by (simp only: days_match_history_def d m)
  with image_minus_iff [of wd "set (history h)" today] show ?thesis by (simp only:)
qed

section \<open>Evaluation on concrete requests\<close>

lemma js_eq_iff: "js s = js t \<longleftrightarrow> s = t"
  by (simp add: js_def inj_on_def)

lemmas eval_defs = init_store_def post_habits_def post_habits_body_def falsy_def call_trim_def
  trim_def is_white_space_def js_def patch_toggle_def toggle_habit_def push_def
  array_includes_def splice1_def loose_eq_def Let_def get_habits_def delete_in_memory_def

section \<open>Two toggle requests in a row\<close>

lemma find_mutate_found:
  "(\<And>x. P (f x) = P x) \<Longrightarrow> List.find P (mutate_found P f xs) = map_option f (List.find P xs)"
  by (induction xs) simp_all

lemma mutate_found_twice:
  "(\<And>x. P (f x) = P x) \<Longrightarrow>
   mutate_found P f (mutate_found P f xs) = mutate_found P (\<lambda>x. f (f x)) xs"
  by (induction xs) simp_all

lemma mutate_found_none: "List.find P xs = None \<Longrightarrow> mutate_found P f xs = xs"
  by (induction xs) (auto split: if_splits)

lemma patch_toggle_twice:
  "habits (run [PatchToggle today d p, PatchToggle today d p] st) =
     mutate_found (\<lambda>h. loose_eq (habit_id h) p)
       (\<lambda>h. toggle_habit today d (toggle_habit today d h)) (habits st)"
proof (cases "List.find (\<lambda>h. loose_eq (habit_id h) p) (habits st)")
  case None
  then have "mutate_found (\<lambda>h. loose_eq (habit_id h) p) f (habits st) = habits st" for f
    by (rule mutate_found_none)
  with None show ?thesis by (simp add: patch_toggle_def)
next
  case (Some h)
  have P: "loose_eq (habit_id (toggle_habit today d x)) p = loose_eq (habit_id x) p" for x
    by (simp add: toggle_habit_fixed)
  from Some have "List.find (\<lambda>h. loose_eq (habit_id h) p)
      (mutate_found (\<lambda>h. loose_eq (habit_id h) p) (toggle_habit today d) (habits st)) =
      Some (toggle_habit today d h)"
    by (simp add: find_mutate_found [where P = "\<lambda>h. loose_eq (habit_id h) p", OF P])
  with Some show ?thesis
    by (simp add: patch_toggle_def
        mutate_found_twice [where P = "\<lambda>h. loose_eq (habit_id h) p", OF P])
qed

section \<open>Facts about the sample data\<close>

lemma weekday_2026_11_02: "weekday_of_date (js ''2026-11-02'') = 1"
  by (simp add: weekday_of_date_def digits_def js_def)

lemma weekday_2026_10_26: "weekday_of_date (js ''2026-10-26'') = 1"
  by (simp add: weekday_of_date_def digits_def js_def)

lemma run_create_delete_create:
  "run create_delete_create init_store =
     \<lparr>habits = [\<lparr>title = js ''Run'', days = [], history = [], createdAt = 2000, habit_id = 2\<rparr>,
                \<lparr>title = js ''Sleep'', days = [], history = [], createdAt = 3000,
                 habit_id = 3\<rparr>],
      habitId = 4\<rparr>"
  by (simp add: create_delete_create_def eval_defs)

section \<open>Facts about create\<close>

lemma trim_Nil: "trim [] = []"
  by (simp add: trim_def)

lemma falsy_JStr: "falsy (Some (JStr s)) \<longleftrightarrow> s = []"
  by (simp add: falsy_def)

lemma post_habits_created:
  "trim s \<noteq> [] \<Longrightarrow>
   post_habits now (Some (JStr s)) st =
     (\<lparr>status = 201,
       body = HabitDoc \<lparr>title = trim s, days = [], history = [], createdAt = now,
                        habit_id = habitId st\<rparr>\<rparr>,
      \<lparr>habits = habits st @ [\<lparr>title = trim s, days = [], history = [], createdAt = now,
                               habit_id = habitId st\<rparr>],
       habitId = Suc (habitId st)\<rparr>)"
  by (auto simp: post_habits_def post_habits_body_def falsy_JStr call_trim_def push_def
      Let_def trim_Nil)

lemma post_habits_cases:
  "post_habits now ttl st =
     (if falsy ttl then (\<lparr>status = 400, body = ErrorMsg ''Title is required''\<rparr>, st)
      else case ttl of
        Some (JStr s) \<Rightarrow>
          if trim s = [] then (\<lparr>status = 400, body = ErrorMsg ''Title is required''\<rparr>, st)
          else (\<lparr>status = 201,
                 body = HabitDoc \<lparr>title = trim s, days = [], history = [], createdAt = now,
                                  habit_id = habitId st\<rparr>\<rparr>,
                \<lparr>habits = habits st @ [\<lparr>title = trim s, days = [], history = [],
                                         createdAt = now, habit_id = habitId st\<rparr>],
                 habitId = Suc (habitId st)\<rparr>)
      | _ \<Rightarrow> (\<lparr>status = 500, body = ErrorMsg ''Failed to create habit''\<rparr>, st))"
  by (simp add: post_habits_def post_habits_body_def call_trim_def Let_def push_def
      split: option.splits json.splits)

lemma post_habits_status:
  "status (fst (post_habits now ttl st)) =
     (if falsy ttl then 400
      else case ttl of Some (JStr s) \<Rightarrow> if trim s = [] then 400 else 201 | _ \<Rightarrow> 500)"
  by (simp add: post_habits_cases split: option.splits json.splits)

lemma post_habits_unchanged:
  "status (fst (post_habits now ttl st)) \<noteq> 201 \<Longrightarrow> snd (post_habits now ttl st) = st"
  by (simp add: post_habits_cases split: option.splits json.splits if_splits)

lemma post_habits_400_body:
  "status (fst (post_habits now ttl st)) = 400 \<Longrightarrow>
   fst (post_habits now ttl st) = \<lparr>status = 400, body = ErrorMsg ''Title is required''\<rparr>"
  by (simp add: post_habits_cases split: option.splits json.splits if_splits)

lemma post_habits_400_iff:
  "status (fst (post_habits now ttl st)) = 400 \<longleftrightarrow>
   falsy ttl \<or> (\<exists>s. ttl = Some (JStr s) \<and> trim s = [])"
  by (simp add: post_habits_status split: option.splits json.splits)

lemma absent_or_blank_falsy:
  "absent_or_blank ttl \<Longrightarrow> falsy ttl \<or> (\<exists>s. ttl = Some (JStr s) \<and> trim s = [])"
  by (auto simp: absent_or_blank_def falsy_def split: option.splits json.splits)

lemma trim_two_spaces: "trim (js ''  '') = []"
  by (simp add: trim_def js_def is_white_space_def)

section \<open>Facts about delete\<close>

lemma findIndex_ge: "- 1 \<le> findIndex P xs"
  by (induction xs) (auto simp: Let_def)

lemma findIndex_none: "findIndex P xs = - 1 \<longleftrightarrow> \<not> (\<exists>x\<in>set xs. P x)"
proof (induction xs)
  case Nil
  show ?case by simp
next
  case (Cons y ys)
  have "- 1 \<le> findIndex P ys" by (rule findIndex_ge)
  with Cons show ?case by (auto simp: Let_def)
qed

lemma findIndex_first:
  "\<exists>x\<in>set xs. P x \<Longrightarrow>
   \<exists>k<length xs. nat (findIndex P xs) = k \<and> 0 \<le> findIndex P xs \<and> P (xs ! k) \<and>
     (\<forall>j<k. \<not> P (xs ! j))"
proof (induction xs)
  case Nil
  then show ?case by simp
next
  case (Cons y ys)
  show ?case
  proof (cases "P y")
    case True
    then show ?thesis by simp
  next
    case False
    with Cons.prems have ex: "\<exists>x\<in>set ys. P x" by simp
    then obtain k where k: "k < length ys" "nat (findIndex P ys) = k" "0 \<le> findIndex P ys"
        "P (ys ! k)" "\<forall>j<k. \<not> P (ys ! j)"
      using Cons.IH by blast
    from k(3) have ne: "findIndex P ys \<noteq> - 1" by simp
    from k(2,3) have n: "nat (findIndex P ys + 1) = Suc k" by simp
    have "\<forall>j<Suc k. \<not> P ((y # ys) ! j)"
    proof (intro allI impI)
      fix j assume "j < Suc k"
      with False k(5) show "\<not> P ((y # ys) ! j)" by (cases j) simp_all
    qed
    with False k ne n have "Suc k < length (y # ys) \<and> nat (findIndex P (y # ys)) = Suc k \<and>
        0 \<le> findIndex P (y # ys) \<and> P ((y # ys) ! Suc k) \<and> (\<forall>j<Suc k. \<not> P ((y # ys) ! j))"
      by (simp add: Let_def)
    then show ?thesis by blast
  qed
qed

lemma splice1_Cons_Suc: "splice1 (y # ys) (Suc k) = y # splice1 ys k"
  by (simp add: splice1_def)

lemma splice1_findIndex_filter:
  "distinct (map g xs) \<Longrightarrow> \<exists>x\<in>set xs. g x = n \<Longrightarrow>
   splice1 xs (nat (findIndex (\<lambda>h. g h = n) xs)) = filter (\<lambda>h. g h \<noteq> n) xs"
proof (induction xs)
  case Nil
  then show ?case by simp
next
  case (Cons y ys)
  show ?case
  proof (cases "g y = n")
    case True
    with Cons.prems(1) have "n \<notin> g ` set ys" by simp
    then have "\<forall>x\<in>set ys. g x \<noteq> n" by (auto simp: image_iff)
    then have "filter (\<lambda>h. g h \<noteq> n) ys = ys" by simp
    with True show ?thesis by (simp add: splice1_def)
  next
    case False
    with Cons.prems have ex: "\<exists>x\<in>set ys. g x = n" and d: "distinct (map g ys)" by simp_all
    from ex have ne: "findIndex (\<lambda>h. g h = n) ys \<noteq> - 1" by (simp add: findIndex_none)
    moreover have "- 1 \<le> findIndex (\<lambda>h. g h = n) ys" by (rule findIndex_ge)
    ultimately have "0 \<le> findIndex (\<lambda>h. g h = n) ys" by linarith
    then have "nat (findIndex (\<lambda>h. g h = n) ys + 1) = Suc (nat (findIndex (\<lambda>h. g h = n) ys))"
      by simp
    with False ne Cons.IH [OF d ex] show ?thesis
      by (simp add: Let_def splice1_Cons_Suc)
  qed
qed

lemma length_splice1: "k < length xs \<Longrightarrow> length (splice1 xs k) = length xs - 1"
  by (simp add: splice1_def)

lemma delete_absent:
  "\<not> (\<exists>h\<in>set (habits st). loose_eq (habit_id h) p) \<Longrightarrow>
   delete_in_memory p st = (\<lparr>status = 404, body = ErrorMsg ''Habit not found''\<rparr>, st)"
  by (simp add: delete_in_memory_def Let_def findIndex_none)

lemma delete_present:
  assumes "\<exists>h\<in>set (habits st). loose_eq (habit_id h) p"
  shows "fst (delete_in_memory p st) = \<lparr>status = 200, body = Message ''Habit deleted successfully''\<rparr>"
    and "habitId (snd (delete_in_memory p st)) = habitId st"
    and "habits (snd (delete_in_memory p st)) =
           splice1 (habits st) (nat (findIndex (\<lambda>h. loose_eq (habit_id h) p) (habits st)))"
  using assms by (simp_all add: delete_in_memory_def Let_def findIndex_none)

lemma loose_eq_Some: "loose_eq m (Some n) \<longleftrightarrow> m = n"
  by (auto simp: loose_eq_def)

lemma delete_filter:
  assumes "\<exists>h\<in>set (habits st). loose_eq (habit_id h) p" "distinct (map habit_id (habits st))"
  shows "habits (snd (delete_in_memory p st)) =
           filter (\<lambda>h. \<not> loose_eq (habit_id h) p) (habits st)"
proof (cases p)
  case None
  with assms(1) show ?thesis by (simp add: loose_eq_def)
next
  case (Some n)
  with assms(1) have ex: "\<exists>x\<in>set (habits st). habit_id x = n"
    by (simp add: loose_eq_Some)
  from splice1_findIndex_filter [OF assms(2) ex] delete_present(3) [OF assms(1)] Some
  show ?thesis by (simp add: loose_eq_Some)
qed

text \<open>The whole handler: what each of its paths answers.\<close>

lemma delete_habit_in_memory:
  "\<not> isConnected sv \<Longrightarrow>
   delete_habit rid sv =
     (fst (delete_in_memory (as_number rid) (memory sv)),
      sv\<lparr>memory := snd (delete_in_memory (as_number rid) (memory sv))\<rparr>)"
  by (simp add: delete_habit_def delete_habit_body_def split: prod.splits)

lemma delete_habit_cast_error:
  "isConnected sv \<Longrightarrow> as_object_id rid = None \<Longrightarrow>
   delete_habit rid sv = (\<lparr>status = 500, body = ErrorMsg ''Failed to delete habit''\<rparr>, sv)"
  by (simp add: delete_habit_def delete_habit_body_def findByIdAndDelete_def)

lemma delete_habit_unreachable:
  "isConnected sv \<Longrightarrow> \<not> reachable sv \<Longrightarrow>
   delete_habit rid sv = (\<lparr>status = 500, body = ErrorMsg ''Failed to delete habit''\<rparr>, sv)"
  by (simp add: delete_habit_def delete_habit_body_def findByIdAndDelete_def
      split: option.splits)

lemma delete_habit_connected_absent:
  "isConnected sv \<Longrightarrow> reachable sv \<Longrightarrow> as_object_id rid = Some n \<Longrightarrow>
   n \<notin> habit_id ` set (collection sv) \<Longrightarrow>
   delete_habit rid sv = (\<lparr>status = 404, body = ErrorMsg ''Habit not found''\<rparr>, sv)"
proof -
  assume a: "isConnected sv" "reachable sv" "as_object_id rid = Some n"
    and n: "n \<notin> habit_id ` set (collection sv)"
  from n have "List.find (\<lambda>d. habit_id d = n) (collection sv) = None"
    by (auto simp: find_None_iff)
  with a show ?thesis
    by (simp add: delete_habit_def delete_habit_body_def findByIdAndDelete_def)
qed

lemma delete_habit_connected_present:
  assumes "isConnected sv" "reachable sv" "as_object_id rid = Some n"
    "List.find (\<lambda>d. habit_id d = n) (collection sv) = Some d"
  shows "delete_habit rid sv =
     (\<lparr>status = 200, body = Message ''Habit deleted successfully''\<rparr>,
      sv\<lparr>collection := remove1 d (collection sv)\<rparr>)"
  using assms by (simp add: delete_habit_def delete_habit_body_def findByIdAndDelete_def)

section \<open>Facts about the random choice\<close>






section \<open>The toggle step\<close>

text \<open>
  C1. Toggle step contract. For a habit \<open>h\<close> that the store finds under the requested id,
  the handler answers 200 with the mutated habit \<open>toggle_habit today d h\<close>, which replaces \<open>h\<close>
  at its place in the store. When \<open>today\<close> is not in the history of \<open>h\<close>, it is appended to
  the history and the weekday \<open>d\<close> is appended to \<open>days\<close> unless it is already there. When
  \<open>today\<close> is in the history, its (first) occurrence is removed from the history and the
  (first) occurrence of \<open>d\<close>, if any, is removed from \<open>days\<close>; in duplicate-free lists
  nothing of them remains. Title, creation time and id are untouched.
\<close>

theorem toggle_step_contract:
  assumes "List.find (\<lambda>h. loose_eq (habit_id h) p) (habits st) = Some h"
  shows "fst (patch_toggle today d p st) =
           \<lparr>status = 200, body = HabitDoc (toggle_habit today d h)\<rparr> \<and>
         (\<exists>k<length (habits st). habits st ! k = h \<and>
            habits (snd (patch_toggle today d p st)) = (habits st)[k := toggle_habit today d h]) \<and>
         habitId (snd (patch_toggle today d p st)) = habitId st \<and>
         (today \<notin> set (history h) \<longrightarrow>
            history (toggle_habit today d h) = history h @ [today] \<and>
            days (toggle_habit today d h) = (if d \<in> set (days h) then days h else days h @ [d])) \<and>
         (today \<in> set (history h) \<longrightarrow>
            history (toggle_habit today d h) = remove1 today (history h) \<and>
            days (toggle_habit today d h) = remove1 d (days h) \<and>
            (distinct (history h) \<longrightarrow> today \<notin> set (history (toggle_habit today d h))) \<and>
            (distinct (days h) \<longrightarrow> d \<notin> set (days (toggle_habit today d h)))) \<and>
         title (toggle_habit today d h) = title h \<and>
         createdAt (toggle_habit today d h) = createdAt h \<and>
         habit_id (toggle_habit today d h) = habit_id h"
proof -
  have resp: "fst (patch_toggle today d p st) =
      \<lparr>status = 200, body = HabitDoc (toggle_habit today d h)\<rparr>"
    using assms by (simp add: patch_toggle_def)
  have upd: "\<exists>k<length (habits st). habits st ! k = h \<and>
      habits (snd (patch_toggle today d p st)) = (habits st)[k := toggle_habit today d h]"
    using assms mutate_found_update [OF assms] by (simp add: patch_toggle_def)
  have ctr: "habitId (snd (patch_toggle today d p st)) = habitId st"
    using assms by (simp add: patch_toggle_def)
  have absent: "today \<notin> set (history h) \<longrightarrow>
      history (toggle_habit today d h) = history h @ [today] \<and>
      days (toggle_habit today d h) = (if d \<in> set (days h) then days h else days h @ [d])"
    using history_toggle_absent days_toggle_absent by blast
  have present: "today \<in> set (history h) \<longrightarrow>
      history (toggle_habit today d h) = remove1 today (history h) \<and>
      days (toggle_habit today d h) = remove1 d (days h) \<and>
      (distinct (history h) \<longrightarrow> today \<notin> set (history (toggle_habit today d h))) \<and>
      (distinct (days h) \<longrightarrow> d \<notin> set (days (toggle_habit today d h)))"
    by (simp add: history_toggle_present days_toggle_present)
  from resp upd ctr absent present show ?thesis
    by (simp only: toggle_habit_fixed simp_thms)
qed

theorem toggle_step_contract_witness:
  "List.find (\<lambda>h. loose_eq (habit_id h) (Some 1)) (habits sample_store) = Some sample_habit \<and>
   fst (patch_toggle (js ''2026-11-02'') 1 (Some 1) sample_store) =
     \<lparr>status = 200,
      body = HabitDoc \<lparr>title = js ''Read'', days = [1], history = [js ''2026-11-02''],
                       createdAt = 1000, habit_id = 1\<rparr>\<rparr> \<and>
   habits (snd (patch_toggle (js ''2026-11-02'') 1 (Some 1) sample_store)) =
     [\<lparr>title = js ''Read'', days = [1], history = [js ''2026-11-02''],
       createdAt = 1000, habit_id = 1\<rparr>]"
proof -
  have f: "List.find (\<lambda>h. loose_eq (habit_id h) (Some 1)) (habits sample_store)
      = Some sample_habit"
    by (simp add: sample_store_def sample_habit_def loose_eq_def)
  have t: "toggle_habit (js ''2026-11-02'') 1 sample_habit =
      \<lparr>title = js ''Read'', days = [1], history = [js ''2026-11-02''],
       createdAt = 1000, habit_id = 1\<rparr>"
    by (simp add: toggle_habit_def sample_habit_def push_def array_includes_def)
  note c = toggle_step_contract [OF f, of "js ''2026-11-02''" 1]
  from c have r: "fst (patch_toggle (js ''2026-11-02'') 1 (Some 1) sample_store) =
      \<lparr>status = 200, body = HabitDoc (toggle_habit (js ''2026-11-02'') 1 sample_habit)\<rparr>"
    by blast
  from c obtain k where k: "k < length (habits sample_store)"
      "habits (snd (patch_toggle (js ''2026-11-02'') 1 (Some 1) sample_store)) =
         (habits sample_store)[k := toggle_habit (js ''2026-11-02'') 1 sample_habit]"
    by blast
  from k have "k = 0" by (simp add: sample_store_def)
  with k(2) have s: "habits (snd (patch_toggle (js ''2026-11-02'') 1 (Some 1) sample_store)) =
      [toggle_habit (js ''2026-11-02'') 1 sample_habit]"
    by (simp add: sample_store_def)
  from f r s show ?thesis by (simp only: t simp_thms)
qed

section \<open>Toggling twice\<close>

text \<open>
  C2, as stated, fails. A habit done on Monday 2026-10-26 has \<open>days = [1]\<close>. On Monday
  2026-11-02 the first toggle adds the date and leaves \<open>days\<close> alone (the weekday is there
  already); the second removes the date and the weekday with it. \<open>history\<close> is back to what
  it was, \<open>days\<close> is empty.
\<close>

theorem toggle_twice_counterexample:
  "habits (run week_ago_done init_store) =
     [\<lparr>title = js ''Read'', days = [1], history = [js ''2026-10-26''],
       createdAt = 1000, habit_id = 1\<rparr>] \<and>
   habits (run [PatchToggle (js ''2026-11-02'') 1 (Some 1),
                PatchToggle (js ''2026-11-02'') 1 (Some 1)] (run week_ago_done init_store)) =
     [\<lparr>title = js ''Read'', days = [], history = [js ''2026-10-26''],
       createdAt = 1000, habit_id = 1\<rparr>] \<and>
   days (toggle_habit (js ''2026-11-02'') 1 (toggle_habit (js ''2026-11-02'') 1
          \<lparr>title = js ''Read'', days = [1], history = [js ''2026-10-26''],
           createdAt = 1000, habit_id = 1\<rparr>))
     \<noteq> days \<lparr>title = js ''Read'', days = [1], history = [js ''2026-10-26''],
               createdAt = 1000, habit_id = 1\<rparr>"
  by (simp add: week_ago_done_def eval_defs)

text \<open>
  C2, amended. Two toggles with the same date and weekday are the two-fold toggle of the
  habit found. They give the habit back unchanged when the date was not in \<open>history\<close> and
  the weekday not in \<open>days\<close>. When the date was not in \<open>history\<close>, \<open>history\<close> is restored and
  \<open>days\<close> loses (the first occurrence of) the weekday if it had it. When the date was in
  \<open>history\<close> and both lists are duplicate-free, the date and the weekday end up last in
  their lists: \<open>history\<close> has the same entries, and so has \<open>days\<close> if it had the weekday.
\<close>

theorem toggle_twice:
  "habits (run [PatchToggle today d p, PatchToggle today d p] st) =
     mutate_found (\<lambda>h. loose_eq (habit_id h) p)
       (\<lambda>h. toggle_habit today d (toggle_habit today d h)) (habits st) \<and>
   (today \<notin> set (history h) \<and> d \<notin> set (days h) \<longrightarrow>
      toggle_habit today d (toggle_habit today d h) = h) \<and>
   (today \<notin> set (history h) \<longrightarrow>
      history (toggle_habit today d (toggle_habit today d h)) = history h \<and>
      days (toggle_habit today d (toggle_habit today d h)) = remove1 d (days h)) \<and>
   (today \<in> set (history h) \<and> distinct (history h) \<and> distinct (days h) \<longrightarrow>
      history (toggle_habit today d (toggle_habit today d h)) =
        remove1 today (history h) @ [today] \<and>
      days (toggle_habit today d (toggle_habit today d h)) = remove1 d (days h) @ [d] \<and>
      set (history (toggle_habit today d (toggle_habit today d h))) = set (history h) \<and>
      (d \<in> set (days h) \<longrightarrow>
         set (days (toggle_habit today d (toggle_habit today d h))) = set (days h)))"
proof -
  have a: "today \<notin> set (history h) \<and> d \<notin> set (days h) \<longrightarrow>
      toggle_habit today d (toggle_habit today d h) = h"
    by (simp add: twice_identity)
  have b: "today \<notin> set (history h) \<longrightarrow>
      history (toggle_habit today d (toggle_habit today d h)) = history h \<and>
      days (toggle_habit today d (toggle_habit today d h)) = remove1 d (days h)"
    by (simp add: twice_history_absent twice_days_absent remove1_idem)
  have c: "today \<in> set (history h) \<and> distinct (history h) \<and> distinct (days h) \<longrightarrow>
      history (toggle_habit today d (toggle_habit today d h)) =
        remove1 today (history h) @ [today] \<and>
      days (toggle_habit today d (toggle_habit today d h)) = remove1 d (days h) @ [d] \<and>
      set (history (toggle_habit today d (toggle_habit today d h))) = set (history h) \<and>
      (d \<in> set (days h) \<longrightarrow>
         set (days (toggle_habit today d (toggle_habit today d h))) = set (days h))"
    by (simp add: twice_history_present twice_days_present set_remove1_snoc
        del: set_append)
  from patch_toggle_twice [of today d p st] a b c show ?thesis by (simp only: simp_thms)
qed

theorem toggle_twice_witness:
  "toggle_habit (js ''2026-11-02'') 1 (toggle_habit (js ''2026-11-02'') 1 sample_habit)
     = sample_habit \<and>
   history (toggle_habit (js ''2026-11-02'') 1 (toggle_habit (js ''2026-11-02'') 1
          \<lparr>title = js ''Read'', days = [2, 1],
           history = [js ''2026-11-02'', js ''2026-11-03''],
           createdAt = 1000, habit_id = 1\<rparr>)) =
     [js ''2026-11-03'', js ''2026-11-02''] \<and>
   days (toggle_habit (js ''2026-11-02'') 1 (toggle_habit (js ''2026-11-02'') 1
          \<lparr>title = js ''Read'', days = [2, 1],
           history = [js ''2026-11-02'', js ''2026-11-03''],
           createdAt = 1000, habit_id = 1\<rparr>)) = [2, 1]"
proof -
  have a: "js ''2026-11-02'' \<notin> set (history sample_habit) \<and> 1 \<notin> set (days sample_habit)"
    by (simp add: sample_habit_def)
  have b: "js ''2026-11-02'' \<in> set (history \<lparr>title = js ''Read'', days = [2, 1],
           history = [js ''2026-11-02'', js ''2026-11-03''],
           createdAt = 1000, habit_id = 1\<rparr>) \<and>
        distinct (history \<lparr>title = js ''Read'', days = [2, 1],
           history = [js ''2026-11-02'', js ''2026-11-03''],
           createdAt = 1000, habit_id = 1\<rparr>) \<and>
        distinct (days \<lparr>title = js ''Read'', days = [2, 1],
           history = [js ''2026-11-02'', js ''2026-11-03''],
           createdAt = 1000, habit_id = 1\<rparr>)"
    by (simp add: js_eq_iff)
  from a toggle_twice [of "js ''2026-11-02''" 1 None init_store sample_habit]
  have 1: "toggle_habit (js ''2026-11-02'') 1 (toggle_habit (js ''2026-11-02'') 1 sample_habit)
     = sample_habit" by blast
  from b toggle_twice [of "js ''2026-11-02''" 1 None init_store
      "\<lparr>title = js ''Read'', days = [2, 1],
           history = [js ''2026-11-02'', js ''2026-11-03''],
           createdAt = 1000, habit_id = 1\<rparr>"]
  have 2: "history (toggle_habit (js ''2026-11-02'') 1 (toggle_habit (js ''2026-11-02'') 1
          \<lparr>title = js ''Read'', days = [2, 1],
           history = [js ''2026-11-02'', js ''2026-11-03''],
           createdAt = 1000, habit_id = 1\<rparr>)) =
     [js ''2026-11-03'', js ''2026-11-02'']"
    and 3: "days (toggle_habit (js ''2026-11-02'') 1 (toggle_habit (js ''2026-11-02'') 1
          \<lparr>title = js ''Read'', days = [2, 1],
           history = [js ''2026-11-02'', js ''2026-11-03''],
           createdAt = 1000, habit_id = 1\<rparr>)) = [2, 1]"
    by simp_all
  from 1 2 3 show ?thesis by (simp only: simp_thms)
qed

section \<open>The weekday invariant\<close>

text \<open>
  C3, as stated, fails. A habit done on Monday 2026-10-26 and on Monday 2026-11-02 has
  \<open>days = [1]\<close> and satisfies the invariant. Toggling it on 2026-11-02, a Monday, removes
  that date and the weekday 1, while 2026-10-26, a Monday too, stays in \<open>history\<close>: the
  invariant is lost.
\<close>

theorem toggle_invariant_counterexample:
  "weekday_of_date (js ''2026-11-02'') = 1 \<and>
   habits (run two_mondays_done init_store) =
     [\<lparr>title = js ''Read'', days = [1], history = [js ''2026-10-26'', js ''2026-11-02''],
       createdAt = 1000, habit_id = 1\<rparr>] \<and>
   days_match_history weekday_of_date
     \<lparr>title = js ''Read'', days = [1], history = [js ''2026-10-26'', js ''2026-11-02''],
      createdAt = 1000, habit_id = 1\<rparr> \<and>
   toggle_habit (js ''2026-11-02'') 1
     \<lparr>title = js ''Read'', days = [1], history = [js ''2026-10-26'', js ''2026-11-02''],
      createdAt = 1000, habit_id = 1\<rparr> =
     \<lparr>title = js ''Read'', days = [], history = [js ''2026-10-26''],
      createdAt = 1000, habit_id = 1\<rparr> \<and>
   \<not> days_match_history weekday_of_date
     (toggle_habit (js ''2026-11-02'') 1
       \<lparr>title = js ''Read'', days = [1], history = [js ''2026-10-26'', js ''2026-11-02''],
        createdAt = 1000, habit_id = 1\<rparr>)"
proof -
  have t: "toggle_habit (js ''2026-11-02'') 1
     \<lparr>title = js ''Read'', days = [1], history = [js ''2026-10-26'', js ''2026-11-02''],
      createdAt = 1000, habit_id = 1\<rparr> =
     \<lparr>title = js ''Read'', days = [], history = [js ''2026-10-26''],
      createdAt = 1000, habit_id = 1\<rparr>"
    by (simp add: eval_defs)
  have r: "habits (run two_mondays_done init_store) =
     [\<lparr>title = js ''Read'', days = [1], history = [js ''2026-10-26'', js ''2026-11-02''],
       createdAt = 1000, habit_id = 1\<rparr>]"
    by (simp add: two_mondays_done_def week_ago_done_def eval_defs)
  have i: "days_match_history weekday_of_date
     \<lparr>title = js ''Read'', days = [1], history = [js ''2026-10-26'', js ''2026-11-02''],
      createdAt = 1000, habit_id = 1\<rparr>"
    by (simp add: weekday_2026_11_02 weekday_2026_10_26 days_match_history_def)
  have "\<not> days_match_history weekday_of_date
     \<lparr>title = js ''Read'', days = [], history = [js ''2026-10-26''],
      createdAt = 1000, habit_id = 1\<rparr>"
    by (simp add: days_match_history_def)
  then have n: "\<not> days_match_history weekday_of_date
     (toggle_habit (js ''2026-11-02'') 1
       \<lparr>title = js ''Read'', days = [1], history = [js ''2026-10-26'', js ''2026-11-02''],
        createdAt = 1000, habit_id = 1\<rparr>)"
    by (simp only: t not_False_eq_True)
  from weekday_2026_11_02 r i t n show ?thesis by (simp only: simp_thms)
qed

text \<open>
  C3, amended. For a habit that satisfies the invariant and a current weekday that is the
  weekday of today's date: a toggle that adds today keeps the invariant; a toggle that
  removes today (from duplicate-free lists) keeps it exactly when no other date of
  \<open>history\<close> falls on the current weekday.
\<close>

theorem toggle_invariant:
  assumes "days_match_history wd h"
  shows "(today \<notin> set (history h) \<longrightarrow>
           days_match_history wd (toggle_habit today (wd today) h)) \<and>
         (today \<in> set (history h) \<and> distinct (history h) \<and> distinct (days h) \<longrightarrow>
           (days_match_history wd (toggle_habit today (wd today) h) \<longleftrightarrow>
            \<not> (\<exists>x\<in>set (history h). x \<noteq> today \<and> wd x = wd today)))"
  using assms inv_toggle_absent [of wd h today] inv_toggle_present [of wd h today]
  by blast

theorem toggle_invariant_witness:
  "days_match_history weekday_of_date sample_habit \<and>
   days_match_history weekday_of_date
     (toggle_habit (js ''2026-11-02'') (weekday_of_date (js ''2026-11-02'')) sample_habit) \<and>
   toggle_habit (js ''2026-11-02'') (weekday_of_date (js ''2026-11-02'')) sample_habit =
     \<lparr>title = js ''Read'', days = [1], history = [js ''2026-11-02''],
      createdAt = 1000, habit_id = 1\<rparr> \<and>
   days_match_history weekday_of_date
     \<lparr>title = js ''Read'', days = [1], history = [js ''2026-11-02''],
      createdAt = 1000, habit_id = 1\<rparr> \<and>
   days_match_history weekday_of_date
     (toggle_habit (js ''2026-11-02'') (weekday_of_date (js ''2026-11-02''))
       \<lparr>title = js ''Read'', days = [1], history = [js ''2026-11-02''],
        createdAt = 1000, habit_id = 1\<rparr>)"
proof -
  have i0: "days_match_history weekday_of_date sample_habit"
    by (simp add: days_match_history_def sample_habit_def)
  have a0: "js ''2026-11-02'' \<notin> set (history sample_habit)"
    by (simp add: sample_habit_def)
  from toggle_invariant [OF i0, of "js ''2026-11-02''"] a0
  have 1: "days_match_history weekday_of_date
     (toggle_habit (js ''2026-11-02'') (weekday_of_date (js ''2026-11-02'')) sample_habit)"
    by blast
  have t: "toggle_habit (js ''2026-11-02'') (weekday_of_date (js ''2026-11-02'')) sample_habit =
     \<lparr>title = js ''Read'', days = [1], history = [js ''2026-11-02''],
      createdAt = 1000, habit_id = 1\<rparr>"
    by (simp add: weekday_2026_11_02 sample_habit_def toggle_habit_def push_def
        array_includes_def)
  from 1 have i1: "days_match_history weekday_of_date
     \<lparr>title = js ''Read'', days = [1], history = [js ''2026-11-02''],
      createdAt = 1000, habit_id = 1\<rparr>"
    by (simp only: t)
  have a1: "js ''2026-11-02'' \<in> set (history \<lparr>title = js ''Read'', days = [1],
        history = [js ''2026-11-02''], createdAt = 1000, habit_id = 1\<rparr>) \<and>
      distinct (history \<lparr>title = js ''Read'', days = [1],
        history = [js ''2026-11-02''], createdAt = 1000, habit_id = 1\<rparr>) \<and>
      distinct (days \<lparr>title = js ''Read'', days = [1],
        history = [js ''2026-11-02''], createdAt = 1000, habit_id = 1\<rparr>)"
    by simp
  have n1: "\<not> (\<exists>x\<in>set (history \<lparr>title = js ''Read'', days = [1],
        history = [js ''2026-11-02''], createdAt = 1000, habit_id = 1\<rparr>).
      x \<noteq> js ''2026-11-02'' \<and> weekday_of_date x = weekday_of_date (js ''2026-11-02''))"
    by simp
  from toggle_invariant [OF i1, of "js ''2026-11-02''"] a1 n1
  have 2: "days_match_history weekday_of_date
     (toggle_habit (js ''2026-11-02'') (weekday_of_date (js ''2026-11-02''))
       \<lparr>title = js ''Read'', days = [1], history = [js ''2026-11-02''],
        createdAt = 1000, habit_id = 1\<rparr>)"
    by blast
  from i0 1 t i1 2 show ?thesis by (simp only: simp_thms)
qed

section \<open>No duplicates\<close>

text \<open>
  C4. After any sequence of requests on the empty store, no habit has a weekday twice in
  \<open>days\<close> or a date twice in \<open>history\<close>; and two toggles of such a habit on one day leave both
  lists duplicate-free and at most one entry longer than they were.
\<close>

theorem no_duplicates_reachable:
  "no_duplicates (run rs init_store) \<and>
   (\<forall>h\<in>set (habits (run rs init_store)).
      distinct (days h) \<and> distinct (history h) \<and>
      distinct (days (toggle_habit today d (toggle_habit today d h))) \<and>
      distinct (history (toggle_habit today d (toggle_habit today d h))) \<and>
      length (history (toggle_habit today d (toggle_habit today d h)))
        \<le> Suc (length (history h)) \<and>
      length (days (toggle_habit today d (toggle_habit today d h)))
        \<le> Suc (length (days h)))"
proof -
  have n: "no_duplicates (run rs init_store)"
    by (rule no_duplicates_run) (rule no_duplicates_init)
  have "distinct (days h) \<and> distinct (history h) \<and>
      distinct (days (toggle_habit today d (toggle_habit today d h))) \<and>
      distinct (history (toggle_habit today d (toggle_habit today d h))) \<and>
      length (history (toggle_habit today d (toggle_habit today d h)))
        \<le> Suc (length (history h)) \<and>
      length (days (toggle_habit today d (toggle_habit today d h)))
        \<le> Suc (length (days h))"
    if "h \<in> set (habits (run rs init_store))" for h
  proof -
    from n that have dd: "distinct (days h)" and dh: "distinct (history h)"
      by (simp_all add: no_duplicates_def list_all_iff)
    from dd have "distinct (days (toggle_habit today d (toggle_habit today d h)))"
      by (intro toggle_distinct_days)
    moreover from dh have "distinct (history (toggle_habit today d (toggle_habit today d h)))"
      by (intro toggle_distinct_history)
    ultimately show ?thesis
      using dd dh length_history_twice [of today d h] length_days_twice [of today d h]
      by (simp only: simp_thms)
  qed
  with n show ?thesis by blast
qed

theorem no_duplicates_reachable_witness:
  "no_duplicates (run week_ago_done init_store) \<and>
   habits (run week_ago_done init_store) =
     [\<lparr>title = js ''Read'', days = [1], history = [js ''2026-10-26''],
       createdAt = 1000, habit_id = 1\<rparr>] \<and>
   distinct (days (toggle_habit (js ''2026-10-26'') 1 (toggle_habit (js ''2026-10-26'') 1
     \<lparr>title = js ''Read'', days = [1], history = [js ''2026-10-26''],
      createdAt = 1000, habit_id = 1\<rparr>))) \<and>
   distinct (history (toggle_habit (js ''2026-10-26'') 1 (toggle_habit (js ''2026-10-26'') 1
     \<lparr>title = js ''Read'', days = [1], history = [js ''2026-10-26''],
      createdAt = 1000, habit_id = 1\<rparr>))) \<and>
   length (history (toggle_habit (js ''2026-10-26'') 1 (toggle_habit (js ''2026-10-26'') 1
     \<lparr>title = js ''Read'', days = [1], history = [js ''2026-10-26''],
      createdAt = 1000, habit_id = 1\<rparr>))) \<le> 2 \<and>
   length (days (toggle_habit (js ''2026-10-26'') 1 (toggle_habit (js ''2026-10-26'') 1
     \<lparr>title = js ''Read'', days = [1], history = [js ''2026-10-26''],
      createdAt = 1000, habit_id = 1\<rparr>))) \<le> 2"
proof -
  have r: "habits (run week_ago_done init_store) =
     [\<lparr>title = js ''Read'', days = [1], history = [js ''2026-10-26''],
       createdAt = 1000, habit_id = 1\<rparr>]"
    by (simp add: week_ago_done_def eval_defs)
  then have m: "\<lparr>title = js ''Read'', days = [1], history = [js ''2026-10-26''],
       createdAt = 1000, habit_id = 1\<rparr> \<in> set (habits (run week_ago_done init_store))"
    by simp
  note c = no_duplicates_reachable [of week_ago_done "js ''2026-10-26''" 1]
  from c have 1: "no_duplicates (run week_ago_done init_store)" by blast
  from c m have 2: "distinct (days (toggle_habit (js ''2026-10-26'') 1
     (toggle_habit (js ''2026-10-26'') 1
     \<lparr>title = js ''Read'', days = [1], history = [js ''2026-10-26''],
      createdAt = 1000, habit_id = 1\<rparr>))) \<and>
   distinct (history (toggle_habit (js ''2026-10-26'') 1 (toggle_habit (js ''2026-10-26'') 1
     \<lparr>title = js ''Read'', days = [1], history = [js ''2026-10-26''],
      createdAt = 1000, habit_id = 1\<rparr>))) \<and>
   length (history (toggle_habit (js ''2026-10-26'') 1 (toggle_habit (js ''2026-10-26'') 1
     \<lparr>title = js ''Read'', days = [1], history = [js ''2026-10-26''],
      createdAt = 1000, habit_id = 1\<rparr>))) \<le> 2 \<and>
   length (days (toggle_habit (js ''2026-10-26'') 1 (toggle_habit (js ''2026-10-26'') 1
     \<lparr>title = js ''Read'', days = [1], history = [js ''2026-10-26''],
      createdAt = 1000, habit_id = 1\<rparr>))) \<le> 2"
    by force
  from 1 r 2 show ?thesis by (simp only: simp_thms)
qed

section \<open>Listing\<close>

text \<open>
  C5 on the in-memory store. The list is the array \<open>habits\<close> as it stands, and create pushes
  at its end: two habits created one after the other are listed oldest first, which is not
  newest-created-first.
\<close>

theorem list_order_in_memory:
  "fst (get_habits (run two_created init_store)) =
     \<lparr>status = 200,
      body = HabitList
        [\<lparr>title = js ''Read'', days = [], history = [], createdAt = 1000, habit_id = 1\<rparr>,
         \<lparr>title = js ''Run'', days = [], history = [], createdAt = 2000, habit_id = 2\<rparr>]\<rparr> \<and>
   \<not> newest_first
        [\<lparr>title = js ''Read'', days = [], history = [], createdAt = 1000, habit_id = 1\<rparr>,
         \<lparr>title = js ''Run'', days = [], history = [], createdAt = 2000, habit_id = 2\<rparr>]"
  by (simp add: two_created_def eval_defs newest_first_def)

section \<open>Creating\<close>

text \<open>
  C6, as stated, fails. The body \<^verbatim>\<open>{"title": false}\<close> has a title, which is not a string that
  trims to the empty string, and is answered 400: \<^verbatim>\<open>!title\<close> holds of every falsy title.
\<close>

theorem create_validation_counterexample:
  "fst (post_habits 1000 (Some (JBool False)) init_store) =
     \<lparr>status = 400, body = ErrorMsg ''Title is required''\<rparr> \<and>
   \<not> absent_or_blank (Some (JBool False))"
  by (simp add: eval_defs absent_or_blank_def)

text \<open>
  C6, amended. Create answers 400 exactly when the title is falsy (absent, \<^verbatim>\<open>null\<close>,
  \<^verbatim>\<open>false\<close>, 0, the empty string) or a string that is empty after trimming; so it does for
  an absent or blank title, and for the title of two spaces. The answer is then
  \<^verbatim>\<open>{error: 'Title is required'}\<close>. Whenever the answer is not 201 the store is what it was,
  and so is the list.
\<close>

theorem create_validation:
  "(status (fst (post_habits now ttl st)) = 400 \<longleftrightarrow>
      falsy ttl \<or> (\<exists>s. ttl = Some (JStr s) \<and> trim s = [])) \<and>
   (absent_or_blank ttl \<longrightarrow> status (fst (post_habits now ttl st)) = 400) \<and>
   status (fst (post_habits now (Some (JStr (js ''  ''))) st)) = 400 \<and>
   (status (fst (post_habits now ttl st)) = 400 \<longrightarrow>
      fst (post_habits now ttl st) = \<lparr>status = 400, body = ErrorMsg ''Title is required''\<rparr>) \<and>
   (status (fst (post_habits now ttl st)) \<noteq> 201 \<longrightarrow>
      snd (post_habits now ttl st) = st \<and>
      fst (get_habits (snd (post_habits now ttl st))) = fst (get_habits st))"
proof -
  have 1: "status (fst (post_habits now ttl st)) = 400 \<longleftrightarrow>
      falsy ttl \<or> (\<exists>s. ttl = Some (JStr s) \<and> trim s = [])"
    by (rule post_habits_400_iff)
  have 2: "absent_or_blank ttl \<longrightarrow> status (fst (post_habits now ttl st)) = 400"
    using absent_or_blank_falsy [of ttl] 1 by blast
  have 3: "status (fst (post_habits now (Some (JStr (js ''  ''))) st)) = 400"
    by (simp add: post_habits_400_iff trim_two_spaces)
  have 4: "status (fst (post_habits now ttl st)) = 400 \<longrightarrow>
      fst (post_habits now ttl st) = \<lparr>status = 400, body = ErrorMsg ''Title is required''\<rparr>"
    using post_habits_400_body by blast
  have 5: "status (fst (post_habits now ttl st)) \<noteq> 201 \<longrightarrow>
      snd (post_habits now ttl st) = st \<and>
      fst (get_habits (snd (post_habits now ttl st))) = fst (get_habits st)"
    by (simp add: post_habits_unchanged)
  from 1 2 3 4 5 show ?thesis by (simp only: simp_thms)
qed

theorem create_validation_witness:
  "falsy None \<and>
   post_habits 5000 None (run two_created init_store) =
     (\<lparr>status = 400, body = ErrorMsg ''Title is required''\<rparr>, run two_created init_store) \<and>
   trim (js ''  '') = [] \<and>
   post_habits 5000 (Some (JStr (js ''  ''))) (run two_created init_store) =
     (\<lparr>status = 400, body = ErrorMsg ''Title is required''\<rparr>, run two_created init_store) \<and>
   fst (get_habits (snd (post_habits 5000 (Some (JStr (js ''  '')))
       (run two_created init_store)))) =
     fst (get_habits (run two_created init_store))"
proof -
  have f: "falsy None" by (simp add: falsy_def)
  note a = create_validation [of 5000 None "run two_created init_store"]
  from a f have a1: "status (fst (post_habits 5000 None (run two_created init_store))) = 400"
    by blast
  with a have "fst (post_habits 5000 None (run two_created init_store)) =
      \<lparr>status = 400, body = ErrorMsg ''Title is required''\<rparr> \<and>
      snd (post_habits 5000 None (run two_created init_store)) = run two_created init_store"
    by simp
  then have 1: "post_habits 5000 None (run two_created init_store) =
     (\<lparr>status = 400, body = ErrorMsg ''Title is required''\<rparr>, run two_created init_store)"
    by (simp add: prod_eq_iff)
  note b = create_validation [of 5000 "Some (JStr (js ''  ''))" "run two_created init_store"]
  from b have b1: "status (fst (post_habits 5000 (Some (JStr (js ''  '')))
      (run two_created init_store))) = 400"
    by blast
  with b have b2: "fst (post_habits 5000 (Some (JStr (js ''  ''))) (run two_created init_store)) =
      \<lparr>status = 400, body = ErrorMsg ''Title is required''\<rparr> \<and>
      snd (post_habits 5000 (Some (JStr (js ''  ''))) (run two_created init_store)) =
        run two_created init_store \<and>
      fst (get_habits (snd (post_habits 5000 (Some (JStr (js ''  '')))
        (run two_created init_store)))) = fst (get_habits (run two_created init_store))"
    by simp
  then have 2: "post_habits 5000 (Some (JStr (js ''  ''))) (run two_created init_store) =
     (\<lparr>status = 400, body = ErrorMsg ''Title is required''\<rparr>, run two_created init_store)"
    by (simp add: prod_eq_iff)
  from f 1 trim_two_spaces 2 b2 show ?thesis by (simp only: simp_thms)
qed

text \<open>
  C7. For a string title that is not empty after trimming, create answers 201 with a new
  habit: the trimmed title, empty \<open>days\<close> and \<open>history\<close>, \<open>createdAt\<close> the current time, and
  the counter's value as id; the counter is incremented and the habit is pushed, so the
  list that follows is the list before with this one habit behind it. The id is fresh in
  any store that satisfies \<open>ids_ok\<close>, as every store reached from the empty one does.
\<close>

theorem create_postcondition:
  assumes "trim s \<noteq> []"
  shows "post_habits now (Some (JStr s)) st =
           (\<lparr>status = 201,
             body = HabitDoc \<lparr>title = trim s, days = [], history = [], createdAt = now,
                              habit_id = habitId st\<rparr>\<rparr>,
            \<lparr>habits = habits st @ [\<lparr>title = trim s, days = [], history = [],
                                     createdAt = now, habit_id = habitId st\<rparr>],
             habitId = Suc (habitId st)\<rparr>) \<and>
         fst (get_habits (snd (post_habits now (Some (JStr s)) st))) =
           \<lparr>status = 200,
            body = HabitList (habits st @ [\<lparr>title = trim s, days = [], history = [],
                                            createdAt = now, habit_id = habitId st\<rparr>])\<rparr> \<and>
         (ids_ok st \<longrightarrow> habitId st \<notin> habit_id ` set (habits st)) \<and>
         ids_ok (run rs init_store)"
proof -
  have 1: "post_habits now (Some (JStr s)) st =
           (\<lparr>status = 201,
             body = HabitDoc \<lparr>title = trim s, days = [], history = [], createdAt = now,
                              habit_id = habitId st\<rparr>\<rparr>,
            \<lparr>habits = habits st @ [\<lparr>title = trim s, days = [], history = [],
                                     createdAt = now, habit_id = habitId st\<rparr>],
             habitId = Suc (habitId st)\<rparr>)"
    using assms by (rule post_habits_created)
  have 2: "fst (get_habits (snd (post_habits now (Some (JStr s)) st))) =
           \<lparr>status = 200,
            body = HabitList (habits st @ [\<lparr>title = trim s, days = [], history = [],
                                            createdAt = now, habit_id = habitId st\<rparr>])\<rparr>"
    by (simp add: 1 get_habits_def)
  have 3: "ids_ok st \<longrightarrow> habitId st \<notin> habit_id ` set (habits st)"
    by (auto simp: ids_ok_def list_all_iff)
  have 4: "ids_ok (run rs init_store)"
    by (rule ids_ok_run) (rule ids_ok_init)
  from 1 2 3 4 show ?thesis by (simp only: simp_thms)
qed

theorem create_postcondition_witness:
  "trim (js ''  Walk the dog '') = js ''Walk the dog'' \<and>
   post_habits 3000 (Some (JStr (js ''  Walk the dog ''))) (run two_created init_store) =
     (\<lparr>status = 201,
       body = HabitDoc \<lparr>title = js ''Walk the dog'', days = [], history = [],
                        createdAt = 3000, habit_id = 3\<rparr>\<rparr>,
      \<lparr>habits =
         [\<lparr>title = js ''Read'', days = [], history = [], createdAt = 1000, habit_id = 1\<rparr>,
          \<lparr>title = js ''Run'', days = [], history = [], createdAt = 2000, habit_id = 2\<rparr>,
          \<lparr>title = js ''Walk the dog'', days = [], history = [], createdAt = 3000,
           habit_id = 3\<rparr>],
       habitId = 4\<rparr>)"
proof -
  have t: "trim (js ''  Walk the dog '') = js ''Walk the dog''"
    by (simp add: trim_def js_def is_white_space_def)
  then have n: "trim (js ''  Walk the dog '') \<noteq> []" by (simp add: js_def)
  have r: "run two_created init_store =
     \<lparr>habits =
         [\<lparr>title = js ''Read'', days = [], history = [], createdAt = 1000, habit_id = 1\<rparr>,
          \<lparr>title = js ''Run'', days = [], history = [], createdAt = 2000, habit_id = 2\<rparr>],
      habitId = 3\<rparr>"
    by (simp add: two_created_def eval_defs)
  from create_postcondition [OF n, of 3000 "run two_created init_store" "[]"]
  have "post_habits 3000 (Some (JStr (js ''  Walk the dog ''))) (run two_created init_store) =
     (\<lparr>status = 201,
       body = HabitDoc \<lparr>title = trim (js ''  Walk the dog ''), days = [], history = [],
                        createdAt = 3000, habit_id = habitId (run two_created init_store)\<rparr>\<rparr>,
      \<lparr>habits = habits (run two_created init_store) @
         [\<lparr>title = trim (js ''  Walk the dog ''), days = [], history = [],
           createdAt = 3000, habit_id = habitId (run two_created init_store)\<rparr>],
       habitId = Suc (habitId (run two_created init_store))\<rparr>)"
    by blast
  then have "post_habits 3000 (Some (JStr (js ''  Walk the dog '')))
      (run two_created init_store) =
     (\<lparr>status = 201,
       body = HabitDoc \<lparr>title = js ''Walk the dog'', days = [], history = [],
                        createdAt = 3000, habit_id = 3\<rparr>\<rparr>,
      \<lparr>habits =
         [\<lparr>title = js ''Read'', days = [], history = [], createdAt = 1000, habit_id = 1\<rparr>,
          \<lparr>title = js ''Run'', days = [], history = [], createdAt = 2000, habit_id = 2\<rparr>,
          \<lparr>title = js ''Walk the dog'', days = [], history = [], createdAt = 3000,
           habit_id = 3\<rparr>],
       habitId = 4\<rparr>)"
    by (simp add: t r)
  with t show ?thesis by (simp only: simp_thms)
qed

section \<open>Deleting\<close>

text \<open>
  The in-memory branch. When no habit of the store has the requested id, it answers 404
  and the store, and with it the list, is what it was. When one has, it answers 200 and
  takes the first habit with that id out of the array, the others staying in their order;
  where ids are pairwise different (as in every store reached from the empty one) no habit
  with that id remains.
\<close>

lemma delete_in_memory_contract:
  "(\<not> (\<exists>h\<in>set (habits st). loose_eq (habit_id h) p) \<longrightarrow>
      delete_in_memory p st = (\<lparr>status = 404, body = ErrorMsg ''Habit not found''\<rparr>, st) \<and>
      fst (get_habits (snd (delete_in_memory p st))) = fst (get_habits st)) \<and>
   ((\<exists>h\<in>set (habits st). loose_eq (habit_id h) p) \<longrightarrow>
      fst (delete_in_memory p st) =
        \<lparr>status = 200, body = Message ''Habit deleted successfully''\<rparr> \<and>
      habitId (snd (delete_in_memory p st)) = habitId st \<and>
      (\<exists>k<length (habits st).
         loose_eq (habit_id (habits st ! k)) p \<and>
         (\<forall>j<k. \<not> loose_eq (habit_id (habits st ! j)) p) \<and>
         habits (snd (delete_in_memory p st)) = take k (habits st) @ drop (Suc k) (habits st)) \<and>
      length (habits (snd (delete_in_memory p st))) = length (habits st) - 1 \<and>
      (distinct (map habit_id (habits st)) \<longrightarrow>
         habits (snd (delete_in_memory p st)) =
           filter (\<lambda>h. \<not> loose_eq (habit_id h) p) (habits st)))"
proof (cases "\<exists>h\<in>set (habits st). loose_eq (habit_id h) p")
  case False
  then have "delete_in_memory p st = (\<lparr>status = 404, body = ErrorMsg ''Habit not found''\<rparr>, st)"
    by (rule delete_absent)
  with False show ?thesis by simp
next
  case True
  from findIndex_first [OF True] obtain k where k: "k < length (habits st)"
      "nat (findIndex (\<lambda>h. loose_eq (habit_id h) p) (habits st)) = k"
      "loose_eq (habit_id (habits st ! k)) p"
      "\<forall>j<k. \<not> loose_eq (habit_id (habits st ! j)) p"
    by blast
  have h: "habits (snd (delete_in_memory p st)) = splice1 (habits st) k"
    using delete_present(3) [OF True] k(2) by simp
  then have 1: "\<exists>k<length (habits st).
         loose_eq (habit_id (habits st ! k)) p \<and>
         (\<forall>j<k. \<not> loose_eq (habit_id (habits st ! j)) p) \<and>
         habits (snd (delete_in_memory p st)) = take k (habits st) @ drop (Suc k) (habits st)"
    using k(1,3,4) unfolding splice1_def by blast
  have 2: "length (habits (snd (delete_in_memory p st))) = length (habits st) - 1"
    using h k(1) by (simp add: length_splice1)
  have 3: "distinct (map habit_id (habits st)) \<longrightarrow>
         habits (snd (delete_in_memory p st)) =
           filter (\<lambda>h. \<not> loose_eq (habit_id h) p) (habits st)"
    using delete_filter [OF True] by blast
  from True delete_present(1,2) [OF True] 1 2 3 show ?thesis by (simp only: simp_thms)
qed

lemma delete_in_memory_example:
  "delete_in_memory (Some 7) (run two_created init_store) =
     (\<lparr>status = 404, body = ErrorMsg ''Habit not found''\<rparr>, run two_created init_store) \<and>
   delete_in_memory None (run two_created init_store) =
     (\<lparr>status = 404, body = ErrorMsg ''Habit not found''\<rparr>, run two_created init_store) \<and>
   fst (delete_in_memory (Some 1) (run two_created init_store)) =
     \<lparr>status = 200, body = Message ''Habit deleted successfully''\<rparr> \<and>
   habits (snd (delete_in_memory (Some 1) (run two_created init_store))) =
     [\<lparr>title = js ''Run'', days = [], history = [], createdAt = 2000, habit_id = 2\<rparr>]"
proof -
  have r: "habits (run two_created init_store) =
         [\<lparr>title = js ''Read'', days = [], history = [], createdAt = 1000, habit_id = 1\<rparr>,
          \<lparr>title = js ''Run'', days = [], history = [], createdAt = 2000, habit_id = 2\<rparr>]"
    by (simp add: two_created_def eval_defs)
  have a7: "\<not> (\<exists>h\<in>set (habits (run two_created init_store)). loose_eq (habit_id h) (Some 7))"
    by (simp add: r loose_eq_def)
  have aN: "\<not> (\<exists>h\<in>set (habits (run two_created init_store)). loose_eq (habit_id h) None)"
    by (simp add: r loose_eq_def)
  have p1: "\<exists>h\<in>set (habits (run two_created init_store)). loose_eq (habit_id h) (Some 1)"
    by (simp add: r loose_eq_def)
  have d: "distinct (map habit_id (habits (run two_created init_store)))"
    by (simp add: r)
  from delete_in_memory_contract [of "run two_created init_store" "Some 7"] a7
  have 1: "delete_in_memory (Some 7) (run two_created init_store) =
     (\<lparr>status = 404, body = ErrorMsg ''Habit not found''\<rparr>, run two_created init_store)"
    by blast
  from delete_in_memory_contract [of "run two_created init_store" None] aN
  have 2: "delete_in_memory None (run two_created init_store) =
     (\<lparr>status = 404, body = ErrorMsg ''Habit not found''\<rparr>, run two_created init_store)"
    by blast
  note c = delete_in_memory_contract [of "run two_created init_store" "Some 1"]
  from c p1 have 3: "fst (delete_in_memory (Some 1) (run two_created init_store)) =
     \<lparr>status = 200, body = Message ''Habit deleted successfully''\<rparr>"
    by blast
  from c p1 d have "habits (snd (delete_in_memory (Some 1) (run two_created init_store))) =
      filter (\<lambda>h. \<not> loose_eq (habit_id h) (Some 1)) (habits (run two_created init_store))"
    by blast
  then have 4: "habits (snd (delete_in_memory (Some 1) (run two_created init_store))) =
     [\<lparr>title = js ''Run'', days = [], history = [], createdAt = 2000, habit_id = 2\<rparr>]"
    by (simp add: r loose_eq_def)
  from 1 2 3 4 show ?thesis by (simp only: simp_thms)
qed

text \<open>
  C8 on the whole handler. \<^verbatim>\<open>DELETE /api/habits/7\<close> asks for an id that no habit has. The
  server that keeps its habits in memory answers 404 and is unchanged. The server
  connected to MongoDB awaits \<^verbatim>\<open>Habit.findByIdAndDelete\<close>, which rejects because \<^verbatim>\<open>7\<close> cannot
  be cast to an ObjectId; the test of \<^verbatim>\<open>deletedHabit\<close> is not reached and the \<^verbatim>\<open>catch\<close>
  answers 500, not 404.
\<close>

theorem delete_unknown_id_connected:
  "delete_habit \<lparr>as_number = Some 7, as_object_id = None\<rparr> connected_server =
     (\<lparr>status = 500, body = ErrorMsg ''Failed to delete habit''\<rparr>, connected_server) \<and>
   delete_habit \<lparr>as_number = Some 7, as_object_id = None\<rparr> in_memory_server =
     (\<lparr>status = 404, body = ErrorMsg ''Habit not found''\<rparr>, in_memory_server)"
proof -
  have r: "habits (run two_created init_store) =
         [\<lparr>title = js ''Read'', days = [], history = [], createdAt = 1000, habit_id = 1\<rparr>,
          \<lparr>title = js ''Run'', days = [], history = [], createdAt = 2000, habit_id = 2\<rparr>]"
    by (simp add: two_created_def eval_defs)
  have 2: "delete_habit \<lparr>as_number = Some 7, as_object_id = None\<rparr> connected_server =
     (\<lparr>status = 500, body = ErrorMsg ''Failed to delete habit''\<rparr>, connected_server)"
    by (rule delete_habit_cast_error) (simp_all add: connected_server_def)
  have a: "\<not> (\<exists>h\<in>set (habits (memory in_memory_server)). loose_eq (habit_id h) (Some 7))"
    by (simp add: in_memory_server_def r loose_eq_def)
  have "delete_in_memory (Some 7) (memory in_memory_server) =
      (\<lparr>status = 404, body = ErrorMsg ''Habit not found''\<rparr>, memory in_memory_server)"
    using a by (rule delete_absent)
  then have 4: "delete_habit \<lparr>as_number = Some 7, as_object_id = None\<rparr> in_memory_server =
     (\<lparr>status = 404, body = ErrorMsg ''Habit not found''\<rparr>, in_memory_server)"
    by (simp add: delete_habit_in_memory in_memory_server_def)
  from 2 4 show ?thesis by (simp only: simp_thms)
qed

section \<open>The motivation endpoint\<close>




section \<open>Ids\<close>

text \<open>
  C10. The counter starts at 1 and never decreases. After any sequence of requests on the
  empty store the ids of the habits are pairwise different, each at least 1 and below the
  counter, so at most one habit matches a requested id; a successful create gives the new
  habit the counter's value as id and increments the counter.
\<close>

theorem ids_distinct:
  "habitId init_store = 1 \<and>
   habitId (run rs init_store) \<le> habitId (run (rs @ [r]) init_store) \<and>
   1 \<le> habitId (run rs init_store) \<and>
   distinct (map habit_id (habits (run rs init_store))) \<and>
   list_all (\<lambda>h. 1 \<le> habit_id h \<and> habit_id h < habitId (run rs init_store))
     (habits (run rs init_store)) \<and>
   length (filter (\<lambda>h. loose_eq (habit_id h) p) (habits (run rs init_store))) \<le> 1 \<and>
   (status (fst (post_habits now ttl (run rs init_store))) = 201 \<longrightarrow>
      map habit_id (habits (snd (post_habits now ttl (run rs init_store)))) =
        map habit_id (habits (run rs init_store)) @ [habitId (run rs init_store)] \<and>
      habitId (snd (post_habits now ttl (run rs init_store))) =
        Suc (habitId (run rs init_store)))"
proof -
  have ok: "ids_ok (run rs init_store)"
    by (rule ids_ok_run) (rule ids_ok_init)
  have 1: "habitId init_store = 1" by (simp add: init_store_def)
  have 2: "habitId (run rs init_store) \<le> habitId (run (rs @ [r]) init_store)"
    by (simp add: run_snoc habitId_handle)
  from ok have 3: "1 \<le> habitId (run rs init_store)"
    and 4: "distinct (map habit_id (habits (run rs init_store)))"
    and 5: "list_all (\<lambda>h. 1 \<le> habit_id h \<and> habit_id h < habitId (run rs init_store))
     (habits (run rs init_store))"
    by (simp_all add: ids_ok_def)
  have 6: "length (filter (\<lambda>h. loose_eq (habit_id h) p) (habits (run rs init_store))) \<le> 1"
  proof (cases p)
    case None
    then show ?thesis by (simp add: loose_eq_def)
  next
    case (Some n)
    with distinct_map_filter_le1 [OF 4, of n] show ?thesis by (simp add: loose_eq_def eq_commute)
  qed
  have 7: "status (fst (post_habits now ttl st)) = 201 \<longrightarrow>
      map habit_id (habits (snd (post_habits now ttl st))) =
        map habit_id (habits st) @ [habitId st] \<and>
      habitId (snd (post_habits now ttl st)) = Suc (habitId st)" for st
    by (simp add: post_habits_def post_habits_body_def push_def Let_def split: sum.splits)
  from 1 2 3 4 5 6 7 [of "run rs init_store"] show ?thesis by (simp only: simp_thms)
qed

theorem ids_distinct_witness:
  "map habit_id (habits (run create_delete_create init_store)) = [2, 3] \<and>
   habitId (run create_delete_create init_store) = 4 \<and>
   distinct (map habit_id (habits (run create_delete_create init_store))) \<and>
   length (filter (\<lambda>h. loose_eq (habit_id h) (Some 2))
     (habits (run create_delete_create init_store))) \<le> 1 \<and>
   status (fst (post_habits 4000 (Some (JStr (js ''Walk'')))
     (run create_delete_create init_store))) = 201 \<and>
   map habit_id (habits (snd (post_habits 4000 (Some (JStr (js ''Walk'')))
     (run create_delete_create init_store)))) = [2, 3, 4] \<and>
   habitId (snd (post_habits 4000 (Some (JStr (js ''Walk'')))
     (run create_delete_create init_store))) = 5"
proof -
  have s: "status (fst (post_habits 4000 (Some (JStr (js ''Walk'')))
     (run create_delete_create init_store))) = 201"
    by (simp add: run_create_delete_create eval_defs)
  have m: "map habit_id (habits (run create_delete_create init_store)) = [2, 3]"
    and c: "habitId (run create_delete_create init_store) = 4"
    by (simp_all add: run_create_delete_create)
  note t = ids_distinct [of create_delete_create "GetHabits" "Some 2" 4000
      "Some (JStr (js ''Walk''))"]
  from t have 1: "distinct (map habit_id (habits (run create_delete_create init_store)))"
    and 2: "length (filter (\<lambda>h. loose_eq (habit_id h) (Some 2))
     (habits (run create_delete_create init_store))) \<le> 1"
    by blast+
  from t s have "map habit_id (habits (snd (post_habits 4000 (Some (JStr (js ''Walk'')))
     (run create_delete_create init_store)))) =
        map habit_id (habits (run create_delete_create init_store)) @
          [habitId (run create_delete_create init_store)] \<and>
      habitId (snd (post_habits 4000 (Some (JStr (js ''Walk'')))
     (run create_delete_create init_store))) = Suc (habitId (run create_delete_create init_store))"
    by blast
  then have 3: "map habit_id (habits (snd (post_habits 4000 (Some (JStr (js ''Walk'')))
     (run create_delete_create init_store)))) = [2, 3, 4]"
    and 4: "habitId (snd (post_habits 4000 (Some (JStr (js ''Walk'')))
     (run create_delete_create init_store))) = 5"
    by (simp_all add: m c)
  from m c 1 2 s 3 4 show ?thesis by (simp only: simp_thms)
qed

end
